theory Spec2Isabelle
  imports Complex_Main "HOL-Library.Log_Nat"
begin

section \<open>JavaScript numbers\<close>

text \<open>
  The decision engine \<open>calculateVerdict\<close> of \<open>src/app/page.tsx\<close> computes with the
  TypeScript type \<open>number\<close>: IEEE 754 binary64 values. A \<open>number\<close> is modelled as
  not-a-number, one of the two infinities, negative zero, or a finite value given by the
  rational it denotes (\<open>Fin 0\<close> is positive zero). Every arithmetic operation computes
  the exact rational result and rounds it to the nearest binary64 value, ties to even.
\<close>

datatype number = NaN | PInf | NInf | NegZero | Fin rat

text \<open>Rounding a rational to the nearest integer, a tie going to the even neighbour.\<close>

definition round_half_even :: "rat \<Rightarrow> int" where
  "round_half_even q =
     (let f = \<lfloor>q\<rfloor>; d = q - of_int f
      in if d < 1 / 2 then f else if 1 / 2 < d then f + 1 else if even f then f else f + 1)"

text \<open>
  The binary exponent of a positive rational \<open>q\<close>: the integer \<open>e\<close> with
  \<open>2 powi e \<le> q < 2 powi (e + 1)\<close>, found from the bit lengths of numerator and
  denominator.
\<close>

definition ilog2 :: "rat \<Rightarrow> int" where
  "ilog2 q = (let (a, b) = quotient_of q; d = bitlen a - bitlen b
              in if 2 powi d \<le> q then d else d - 1)"

text \<open>
  Rounding a positive rational to a 53-bit significand: the unit in the last place is
  \<open>2 powi (e - 52)\<close>, and never below the subnormal spacing \<open>2 powi (- 1074)\<close>.
\<close>

definition round_binary64 :: "rat \<Rightarrow> rat" where
  "round_binary64 q =
     (let u = max (ilog2 q - 52) (- 1074)
      in of_int (round_half_even (q / 2 powi u)) * 2 powi u)"

text \<open>
  The binary64 value of an exact result: a rounded magnitude that reaches \<open>2 ^ 1024\<close>
  overflows to an infinity, one that rounds to nothing keeps its sign as a zero.
\<close>

definition to_number :: "rat \<Rightarrow> number" where
  "to_number q =
     (if q = 0 then Fin 0
      else let r = round_binary64 \<bar>q\<bar>
           in if r = 0 then (if q < 0 then NegZero else Fin 0)
              else if 1024 \<le> ilog2 r then (if q < 0 then NInf else PInf)
              else Fin (if q < 0 then - r else r))"

text \<open>A numeric literal of the source denotes the binary64 value nearest to it.\<close>

definition lit :: "rat \<Rightarrow> number" where
  "lit q = to_number q"

fun is_zero :: "number \<Rightarrow> bool" where
  "is_zero NegZero = True"
| "is_zero (Fin q) = (q = 0)"
| "is_zero _ = False"

fun is_inf :: "number \<Rightarrow> bool" where
  "is_inf PInf = True"
| "is_inf NInf = True"
| "is_inf _ = False"

text \<open>The sign bit.\<close>

fun negative :: "number \<Rightarrow> bool" where
  "negative NInf = True"
| "negative NegZero = True"
| "negative (Fin q) = (q < 0)"
| "negative _ = False"

text \<open>The rational a finite number denotes.\<close>

fun fval :: "number \<Rightarrow> rat" where
  "fval (Fin q) = q"
| "fval _ = 0"

definition inf_of :: "bool \<Rightarrow> number" where
  "inf_of neg = (if neg then NInf else PInf)"

definition zero_of :: "bool \<Rightarrow> number" where
  "zero_of neg = (if neg then NegZero else Fin 0)"

text \<open>The operators \<open>*\<close>, \<open>+\<close>, \<open>-\<close> and \<open>/\<close> on numbers.\<close>

definition js_mul :: "number \<Rightarrow> number \<Rightarrow> number" where
  "js_mul x y =
     (if x = NaN \<or> y = NaN then NaN
      else if is_inf x \<or> is_inf y
        then (if is_zero x \<or> is_zero y then NaN else inf_of (negative x \<noteq> negative y))
      else if is_zero x \<or> is_zero y then zero_of (negative x \<noteq> negative y)
      else to_number (fval x * fval y))"

definition js_add :: "number \<Rightarrow> number \<Rightarrow> number" where
  "js_add x y =
     (if x = NaN \<or> y = NaN then NaN
      else if is_inf x then (if is_inf y \<and> y \<noteq> x then NaN else x)
      else if is_inf y then y
      else if is_zero x \<and> is_zero y then zero_of (negative x \<and> negative y)
      else to_number (fval x + fval y))"

fun js_neg :: "number \<Rightarrow> number" where
  "js_neg NaN = NaN"
| "js_neg PInf = NInf"
| "js_neg NInf = PInf"
| "js_neg NegZero = Fin 0"
| "js_neg (Fin q) = (if q = 0 then NegZero else Fin (- q))"

definition js_sub :: "number \<Rightarrow> number \<Rightarrow> number" where
  "js_sub x y = js_add x (js_neg y)"

definition js_div :: "number \<Rightarrow> number \<Rightarrow> number" where
  "js_div x y =
     (if x = NaN \<or> y = NaN then NaN
      else if is_inf x then (if is_inf y then NaN else inf_of (negative x \<noteq> negative y))
      else if is_inf y then zero_of (negative x \<noteq> negative y)
      else if is_zero y then (if is_zero x then NaN else inf_of (negative x \<noteq> negative y))
      else if is_zero x then zero_of (negative x \<noteq> negative y)
      else to_number (fval x / fval y))"

text \<open>
  The comparisons \<open><\<close> and \<open>>=\<close>: both are false as soon as one operand is
  not-a-number, and the two zeros compare equal.
\<close>

definition js_lt :: "number \<Rightarrow> number \<Rightarrow> bool" where
  "js_lt x y =
     (x \<noteq> NaN \<and> y \<noteq> NaN \<and> x \<noteq> PInf \<and> y \<noteq> NInf \<and>
      (x = NInf \<or> y = PInf \<or> fval x < fval y))"

definition js_ge :: "number \<Rightarrow> number \<Rightarrow> bool" where
  "js_ge x y = (x \<noteq> NaN \<and> y \<noteq> NaN \<and> \<not> js_lt x y)"

text \<open>
  \<open>Math.max\<close> and \<open>Math.min\<close> of two arguments: not-a-number is contagious, and
  positive zero counts as larger than negative zero.
\<close>

definition math_max :: "number \<Rightarrow> number \<Rightarrow> number" where
  "math_max a b =
     (if a = NaN \<or> b = NaN then NaN
      else if js_lt a b then b else if js_lt b a then a
      else if negative a then b else a)"

definition math_min :: "number \<Rightarrow> number \<Rightarrow> number" where
  "math_min a b =
     (if a = NaN \<or> b = NaN then NaN
      else if js_lt a b then a else if js_lt b a then b
      else if negative a then a else b)"

section \<open>The data model\<close>

record RiskScores =
  irreversibility :: number
  external_impact :: number
  financial :: number
  safety :: number
  missing_context :: number
  policy_violation :: number

datatype VerdictType = APPROVE | APPROVE_WITH_NOTICE | ASK_FOR_CLARIFICATION | MODIFY | BLOCK

record Verdict =
  type :: VerdictType
  confidence :: number
  weightedScore :: number
  triggeredRules :: "string list"

text \<open>
  The rule messages contain the sign U+2265; a \<open>string\<close> holds bytes, so the sign is
  the three bytes of its UTF-8 encoding, as in the source file.
\<close>

definition ge_sign :: string where
  "ge_sign = [CHR 0xE2, CHR 0x89, CHR 0xA5]"

text \<open>\<open>Array.prototype.push\<close> on the local array, as state passing.\<close>

definition push :: "'a list \<Rightarrow> 'a \<Rightarrow> 'a list" where
  "push xs x = xs @ [x]"

section \<open>The decision engine\<close>

text \<open>\<open>calculateVerdict\<close>, lines 84 to 153 of \<open>src/app/page.tsx\<close>.\<close>

definition calculateVerdict :: "RiskScores \<Rightarrow> Verdict" where
  "calculateVerdict scores =
     (let triggeredRules = [] in
      if js_ge (safety scores) (lit 3) then
        \<lparr>type = BLOCK, confidence = lit 100, weightedScore = lit 0,
         triggeredRules = push triggeredRules (''CRITICAL: Safety score '' @ ge_sign @ '' 3'')\<rparr>
      else if js_ge (irreversibility scores) (lit 3) \<and> js_ge (external_impact scores) (lit 2) then
        \<lparr>type = BLOCK, confidence = lit 100, weightedScore = lit 0,
         triggeredRules = push triggeredRules
           (''CRITICAL: Irreversibility '' @ ge_sign @ '' 3 AND External Impact '' @ ge_sign @ '' 2'')\<rparr>
      else if js_ge (policy_violation scores) (lit 3) then
        \<lparr>type = BLOCK, confidence = lit 100, weightedScore = lit 0,
         triggeredRules = push triggeredRules (''CRITICAL: Policy Violation '' @ ge_sign @ '' 3'')\<rparr>
      else
        let weightedScore =
              js_add (js_add (js_add (js_add (js_add
                (js_mul (irreversibility scores) (lit (25 / 100)))
                (js_mul (external_impact scores) (lit (25 / 100))))
                (js_mul (financial scores) (lit (15 / 100))))
                (js_mul (safety scores) (lit (2 / 10))))
                (js_mul (missing_context scores) (lit (1 / 10))))
                (js_mul (policy_violation scores) (lit (5 / 100)));
            confidence =
              math_max (lit 0) (math_min (lit 100)
                (js_sub (lit 100) (js_mul (js_div weightedScore (lit 3)) (lit 100))))
        in
          if js_lt weightedScore (lit 1) then
            \<lparr>type = APPROVE, confidence = confidence, weightedScore = weightedScore,
             triggeredRules = push triggeredRules ''Weighted score < 1.0''\<rparr>
          else if js_lt weightedScore (lit (15 / 10)) then
            \<lparr>type = APPROVE_WITH_NOTICE, confidence = confidence, weightedScore = weightedScore,
             triggeredRules = push triggeredRules ''Weighted score < 1.5''\<rparr>
          else if js_ge (missing_context scores) (lit 2) then
            \<lparr>type = ASK_FOR_CLARIFICATION, confidence = confidence, weightedScore = weightedScore,
             triggeredRules = push triggeredRules (''Missing Context '' @ ge_sign @ '' 2'')\<rparr>
          else if js_lt weightedScore (lit 2) then
            \<lparr>type = MODIFY, confidence = confidence, weightedScore = weightedScore,
             triggeredRules = push triggeredRules ''Weighted score < 2.0''\<rparr>
          else
            \<lparr>type = BLOCK, confidence = confidence, weightedScore = weightedScore,
             triggeredRules = push triggeredRules (''Weighted score '' @ ge_sign @ '' 2.0'')\<rparr>)"

text \<open>
  The second \<open>calculateVerdict\<close>, lines 915 to 984 of \<open>src/app/page.tsx\<close> (the second
  document of the file), translated on its own.
\<close>

definition calculateVerdict_doc2 :: "RiskScores \<Rightarrow> Verdict" where
  "calculateVerdict_doc2 scores =
     (let triggeredRules = [] in
      if js_ge (safety scores) (lit 3) then
        \<lparr>type = BLOCK, confidence = lit 100, weightedScore = lit 0,
         triggeredRules = push triggeredRules (''CRITICAL: Safety score '' @ ge_sign @ '' 3'')\<rparr>
      else if js_ge (irreversibility scores) (lit 3) \<and> js_ge (external_impact scores) (lit 2) then
        \<lparr>type = BLOCK, confidence = lit 100, weightedScore = lit 0,
         triggeredRules = push triggeredRules
           (''CRITICAL: Irreversibility '' @ ge_sign @ '' 3 AND External Impact '' @ ge_sign @ '' 2'')\<rparr>
      else if js_ge (policy_violation scores) (lit 3) then
        \<lparr>type = BLOCK, confidence = lit 100, weightedScore = lit 0,
         triggeredRules = push triggeredRules (''CRITICAL: Policy Violation '' @ ge_sign @ '' 3'')\<rparr>
      else
        let weightedScore =
              js_add (js_add (js_add (js_add (js_add
                (js_mul (irreversibility scores) (lit (25 / 100)))
                (js_mul (external_impact scores) (lit (25 / 100))))
                (js_mul (financial scores) (lit (15 / 100))))
                (js_mul (safety scores) (lit (2 / 10))))
                (js_mul (missing_context scores) (lit (1 / 10))))
                (js_mul (policy_violation scores) (lit (5 / 100)));
            confidence =
              math_max (lit 0) (math_min (lit 100)
                (js_sub (lit 100) (js_mul (js_div weightedScore (lit 3)) (lit 100))))
        in
          if js_lt weightedScore (lit 1) then
            \<lparr>type = APPROVE, confidence = confidence, weightedScore = weightedScore,
             triggeredRules = push triggeredRules ''Weighted score < 1.0''\<rparr>
          else if js_lt weightedScore (lit (15 / 10)) then
            \<lparr>type = APPROVE_WITH_NOTICE, confidence = confidence, weightedScore = weightedScore,
             triggeredRules = push triggeredRules ''Weighted score < 1.5''\<rparr>
          else if js_ge (missing_context scores) (lit 2) then
            \<lparr>type = ASK_FOR_CLARIFICATION, confidence = confidence, weightedScore = weightedScore,
             triggeredRules = push triggeredRules (''Missing Context '' @ ge_sign @ '' 2'')\<rparr>
          else if js_lt weightedScore (lit 2) then
            \<lparr>type = MODIFY, confidence = confidence, weightedScore = weightedScore,
             triggeredRules = push triggeredRules ''Weighted score < 2.0''\<rparr>
          else
            \<lparr>type = BLOCK, confidence = confidence, weightedScore = weightedScore,
             triggeredRules = push triggeredRules (''Weighted score '' @ ge_sign @ '' 2.0'')\<rparr>)"

section \<open>The engine with its store\<close>

text \<open>
  \<open>calculateVerdict\<close> once more, lines 84 to 153, with everything it could read or
  write made explicit. The argument \<open>scores\<close> is a reference to an object, the array
  \<open>triggeredRules\<close> is allocated by the call, \<open>push\<close> writes to it, and the returned
  verdict, an object new with each call and modelled by its value, holds a reference to
  it. The store has the objects of type \<open>RiskScores\<close>, the
  string arrays with the address of the next array to allocate, and the state of the
  component \<open>Home\<close> in whose scope the function is declared (the state variables of
  lines 73 to 81), of which the function body names none. A reference to no object
  makes the first property access throw.
\<close>

datatype error = TypeError

record 'c store =
  scores_heap :: "nat \<rightharpoonup> RiskScores"
  array_heap :: "nat \<rightharpoonup> string list"
  next_array :: nat
  component :: 'c

record VerdictObject =
  vtype :: VerdictType
  vconfidence :: number
  vweightedScore :: number
  vtriggeredRules :: nat

text \<open>The array literal \<open>[]\<close>: a new empty array at the next free address.\<close>

definition new_array :: "'c store \<Rightarrow> nat \<times> 'c store" where
  "new_array \<sigma> =
     (next_array \<sigma>,
      \<sigma>\<lparr>array_heap := (array_heap \<sigma>)(next_array \<sigma> \<mapsto> []),
        next_array := Suc (next_array \<sigma>)\<rparr>)"

text \<open>\<open>a.push(x)\<close> on the array at address \<open>a\<close>.\<close>

definition array_push :: "'c store \<Rightarrow> nat \<Rightarrow> string \<Rightarrow> error + 'c store" where
  "array_push \<sigma> a x =
     (case array_heap \<sigma> a of
        None \<Rightarrow> Inl TypeError
      | Some xs \<Rightarrow> Inr (\<sigma>\<lparr>array_heap := (array_heap \<sigma>)(a \<mapsto> push xs x)\<rparr>))"

text \<open>
  The two statements that end each of the eight paths: the push of the message and the
  return of the verdict object.
\<close>

definition push_and_return ::
  "'c store \<Rightarrow> nat \<Rightarrow> string \<Rightarrow> VerdictType \<Rightarrow> number \<Rightarrow> number \<Rightarrow>
     error + (VerdictObject \<times> 'c store)" where
  "push_and_return \<sigma> a msg ty conf w =
     (case array_push \<sigma> a msg of
        Inl e \<Rightarrow> Inl e
      | Inr \<sigma>' \<Rightarrow>
          Inr (\<lparr>vtype = ty, vconfidence = conf, vweightedScore = w, vtriggeredRules = a\<rparr>, \<sigma>'))"

definition calculateVerdict_st :: "'c store \<Rightarrow> nat \<Rightarrow> error + (VerdictObject \<times> 'c store)" where
  "calculateVerdict_st \<sigma> p =
     (case scores_heap \<sigma> p of
        None \<Rightarrow> Inl TypeError
      | Some scores \<Rightarrow>
          let (triggeredRules, \<sigma>1) = new_array \<sigma> in
          if js_ge (safety scores) (lit 3) then
            push_and_return \<sigma>1 triggeredRules (''CRITICAL: Safety score '' @ ge_sign @ '' 3'')
              BLOCK (lit 100) (lit 0)
          else if js_ge (irreversibility scores) (lit 3) \<and> js_ge (external_impact scores) (lit 2)
          then
            push_and_return \<sigma>1 triggeredRules
              (''CRITICAL: Irreversibility '' @ ge_sign @ '' 3 AND External Impact '' @ ge_sign @ '' 2'')
              BLOCK (lit 100) (lit 0)
          else if js_ge (policy_violation scores) (lit 3) then
            push_and_return \<sigma>1 triggeredRules (''CRITICAL: Policy Violation '' @ ge_sign @ '' 3'')
              BLOCK (lit 100) (lit 0)
          else
            let weightedScore =
                  js_add (js_add (js_add (js_add (js_add
                    (js_mul (irreversibility scores) (lit (25 / 100)))
                    (js_mul (external_impact scores) (lit (25 / 100))))
                    (js_mul (financial scores) (lit (15 / 100))))
                    (js_mul (safety scores) (lit (2 / 10))))
                    (js_mul (missing_context scores) (lit (1 / 10))))
                    (js_mul (policy_violation scores) (lit (5 / 100)));
                confidence =
                  math_max (lit 0) (math_min (lit 100)
                    (js_sub (lit 100) (js_mul (js_div weightedScore (lit 3)) (lit 100))))
            in
              if js_lt weightedScore (lit 1) then
                push_and_return \<sigma>1 triggeredRules ''Weighted score < 1.0''
                  APPROVE confidence weightedScore
              else if js_lt weightedScore (lit (15 / 10)) then
                push_and_return \<sigma>1 triggeredRules ''Weighted score < 1.5''
                  APPROVE_WITH_NOTICE confidence weightedScore
              else if js_ge (missing_context scores) (lit 2) then
                push_and_return \<sigma>1 triggeredRules (''Missing Context '' @ ge_sign @ '' 2'')
                  ASK_FOR_CLARIFICATION confidence weightedScore
              else if js_lt weightedScore (lit 2) then
                push_and_return \<sigma>1 triggeredRules ''Weighted score < 2.0''
                  MODIFY confidence weightedScore
              else
                push_and_return \<sigma>1 triggeredRules (''Weighted score '' @ ge_sign @ '' 2.0'')
                  BLOCK confidence weightedScore)"

text \<open>The verdict that a caller reads from a verdict object: its fields and its array.\<close>

definition verdict_value :: "'c store \<Rightarrow> VerdictObject \<Rightarrow> Verdict option" where
  "verdict_value \<sigma> v =
     (case array_heap \<sigma> (vtriggeredRules v) of
        None \<Rightarrow> None
      | Some rules \<Rightarrow>
          Some \<lparr>type = vtype v, confidence = vconfidence v, weightedScore = vweightedScore v,
                triggeredRules = rules\<rparr>)"

text \<open>A store with one scores object, at address 0, and no array.\<close>

definition store_with :: "RiskScores \<Rightarrow> unit store" where
  "store_with s =
     \<lparr>scores_heap = [0 \<mapsto> s], array_heap = Map.empty, next_array = 0, component = ()\<rparr>"

section \<open>Notions of the specification\<close>

text \<open>
  A well-formed dimension is an integer of the closed range 0 to 3. Negative zero
  compares equal to zero and is counted as the integer 0.
\<close>

definition is_score :: "number \<Rightarrow> bool" where
  "is_score x = (x = Fin 0 \<or> x = NegZero \<or> x = Fin 1 \<or> x = Fin 2 \<or> x = Fin 3)"

definition well_formed :: "RiskScores \<Rightarrow> bool" where
  "well_formed s =
     (is_score (irreversibility s) \<and> is_score (external_impact s) \<and> is_score (financial s) \<and>
      is_score (safety s) \<and> is_score (missing_context s) \<and> is_score (policy_violation s))"

text \<open>The scores record with the six given finite values, in the order of the interface.\<close>

definition scores_of :: "rat \<Rightarrow> rat \<Rightarrow> rat \<Rightarrow> rat \<Rightarrow> rat \<Rightarrow> rat \<Rightarrow> RiskScores" where
  "scores_of irr ext fin saf mis pol =
     \<lparr>irreversibility = Fin irr, external_impact = Fin ext, financial = Fin fin,
      safety = Fin saf, missing_context = Fin mis, policy_violation = Fin pol\<rparr>"

text \<open>No hard override fires: none of the three tests of lines 88, 98 and 108 holds.\<close>

definition no_override :: "RiskScores \<Rightarrow> bool" where
  "no_override s =
     (\<not> js_ge (safety s) (Fin 3) \<and>
      \<not> (js_ge (irreversibility s) (Fin 3) \<and> js_ge (external_impact s) (Fin 2)) \<and>
      \<not> js_ge (policy_violation s) (Fin 3))"

text \<open>The verdicts of the three hard overrides.\<close>

definition safety_block :: Verdict where
  "safety_block =
     \<lparr>type = BLOCK, confidence = Fin 100, weightedScore = Fin 0,
      triggeredRules = [''CRITICAL: Safety score '' @ ge_sign @ '' 3'']\<rparr>"

definition irreversibility_block :: Verdict where
  "irreversibility_block =
     \<lparr>type = BLOCK, confidence = Fin 100, weightedScore = Fin 0,
      triggeredRules =
        [''CRITICAL: Irreversibility '' @ ge_sign @ '' 3 AND External Impact '' @ ge_sign @ '' 2'']\<rparr>"

definition policy_block :: Verdict where
  "policy_block =
     \<lparr>type = BLOCK, confidence = Fin 100, weightedScore = Fin 0,
      triggeredRules = [''CRITICAL: Policy Violation '' @ ge_sign @ '' 3'']\<rparr>"

text \<open>
  The weighted score as the specification writes it (section 4.1, step 2), with the
  weights 0.25, 0.25, 0.15, 0.20, 0.10 and 0.05, evaluated from left to right in
  binary64 arithmetic.
\<close>

definition weighted_formula :: "RiskScores \<Rightarrow> number" where
  "weighted_formula s =
     js_add (js_add (js_add (js_add (js_add
       (js_mul (irreversibility s) (lit (25 / 100)))
       (js_mul (external_impact s) (lit (25 / 100))))
       (js_mul (financial s) (lit (15 / 100))))
       (js_mul (safety s) (lit (20 / 100))))
       (js_mul (missing_context s) (lit (10 / 100))))
       (js_mul (policy_violation s) (lit (5 / 100)))"

text \<open>
  The specification's \<open>clamp(x, lo, hi)\<close>, by comparisons, and the confidence it
  prescribes (section 4.1, step 3).
\<close>

definition clamp :: "number \<Rightarrow> number \<Rightarrow> number \<Rightarrow> number" where
  "clamp x lo hi = (if js_lt x lo then lo else if js_lt hi x then hi else x)"

definition confidence_formula :: "number \<Rightarrow> number" where
  "confidence_formula w =
     clamp (js_sub (Fin 100) (js_mul (js_div w (Fin 3)) (Fin 100))) (Fin 0) (Fin 100)"

text \<open>The confidence expression of line 128, on its own.\<close>

definition code_confidence :: "number \<Rightarrow> number" where
  "code_confidence w =
     math_max (Fin 0)
       (math_min (Fin 100) (js_sub (Fin 100) (js_mul (js_div w (Fin 3)) (Fin 100))))"

text \<open>
  The specification's ordered rule list (section 4.1 and the design notes): each rule is
  a condition with its message, and the first rule whose condition holds is the one
  that fires.
\<close>

definition rule_table :: "RiskScores \<Rightarrow> (bool \<times> string) list" where
  "rule_table s =
     [(js_ge (safety s) (Fin 3), ''CRITICAL: Safety score '' @ ge_sign @ '' 3''),
      (js_ge (irreversibility s) (Fin 3) \<and> js_ge (external_impact s) (Fin 2),
         ''CRITICAL: Irreversibility '' @ ge_sign @ '' 3 AND External Impact '' @ ge_sign @ '' 2''),
      (js_ge (policy_violation s) (Fin 3), ''CRITICAL: Policy Violation '' @ ge_sign @ '' 3''),
      (js_lt (weighted_formula s) (Fin 1), ''Weighted score < 1.0''),
      (js_lt (weighted_formula s) (Fin (3 / 2)), ''Weighted score < 1.5''),
      (js_ge (missing_context s) (Fin 2), ''Missing Context '' @ ge_sign @ '' 2''),
      (js_lt (weighted_formula s) (Fin 2), ''Weighted score < 2.0''),
      (True, ''Weighted score '' @ ge_sign @ '' 2.0'')]"

definition first_match :: "(bool \<times> string) list \<Rightarrow> string list" where
  "first_match rs = map snd (take 1 (filter fst rs))"

section \<open>Auxiliary notions\<close>

text \<open>The exponent of the unit in the last place that \<open>round_binary64\<close> uses.\<close>

definition ulp_exp :: "rat \<Rightarrow> int" where
  "ulp_exp q = max (ilog2 q - 52) (- 1074)"

text \<open>A number is finite and its value lies between two rationals.\<close>

definition in_range :: "rat \<Rightarrow> rat \<Rightarrow> number \<Rightarrow> bool" where
  "in_range lo hi x =
     (case x of Fin q \<Rightarrow> lo \<le> q \<and> q \<le> hi | NegZero \<Rightarrow> lo \<le> 0 \<and> 0 \<le> hi | _ \<Rightarrow> False)"

text \<open>
  The largest weighted score of a well-formed input without override,
  \<open>2.5 + 2 powi (- 51)\<close>, printed 2.5000000000000004, and the confidence that goes with
  it, printed 16.666666666666657.
\<close>

definition w_max :: rat where
  "w_max = 5629499534213121 / 2251799813685248"

definition c_min :: rat where
  "c_min = 586406201480533 / 35184372088832"

text \<open>The argument of the two clamping calls of line 128.\<close>

definition raw_confidence :: "number \<Rightarrow> number" where
  "raw_confidence w = js_sub (Fin 100) (js_mul (js_div w (Fin 3)) (Fin 100))"

section \<open>Properties of the rounding\<close>

lemma of_int_bitlen_bounds:
  assumes "0 < a"
  shows "(2::rat) powi (bitlen a - 1) \<le> of_int a" and "(of_int a :: rat) < 2 powi (bitlen a)"
proof -
  from bitlen_bounds [OF assms]
  have lo: "2 ^ nat (bitlen a - 1) \<le> a" and hi: "a < 2 ^ nat (bitlen a)"
    by simp_all
  have pos: "1 \<le> bitlen a"
    using assms by (simp add: bitlen_alt_def)
  have "(of_int (2 ^ nat (bitlen a - 1)) :: rat) \<le> of_int a"
    using lo by (simp only: of_int_le_iff)
  then show "(2::rat) powi (bitlen a - 1) \<le> of_int a"
    using pos by (simp add: power_int_def)
  have "(of_int a :: rat) < of_int (2 ^ nat (bitlen a))"
    using hi by (simp only: of_int_less_iff)
  then show "(of_int a :: rat) < 2 powi (bitlen a)"
    using pos by (simp add: power_int_def)
qed

lemma powi2_diff: "(2::rat) powi (m - n) = 2 powi m / 2 powi n"
  by (rule power_int_diff) simp

lemma ilog2_bounds:
  assumes "0 < q"
  shows "2 powi (ilog2 q) \<le> q" and "q < 2 powi (ilog2 q + 1)"
proof -
  obtain a b where ab: "quotient_of q = (a, b)"
    by (cases "quotient_of q")
  have b: "0 < b"
    using quotient_of_denom_pos [OF ab] .
  have q: "q = of_int a / of_int b"
    using quotient_of_div [OF ab] .
  have a: "0 < a"
    using assms b q by (simp add: zero_less_divide_iff)
  define d where "d = bitlen a - bitlen b"
  have bpos: "(0::rat) < of_int b"
    using b by simp
  have e1: "(2::rat) powi (d + 1) = 2 powi (bitlen a) / 2 powi (bitlen b - 1)"
  proof -
    have "d + 1 = bitlen a - (bitlen b - 1)"
      by (simp add: d_def)
    then show ?thesis
      by (simp only: powi2_diff)
  qed
  have e2: "(2::rat) powi (d - 1) = 2 powi (bitlen a - 1) / 2 powi (bitlen b)"
  proof -
    have "d - 1 = (bitlen a - 1) - bitlen b"
      by (simp add: d_def)
    then show ?thesis
      by (simp only: powi2_diff)
  qed
  have "q < 2 powi (bitlen a) / 2 powi (bitlen b - 1)"
    unfolding q using of_int_bitlen_bounds [OF a] of_int_bitlen_bounds [OF b] bpos
    by (intro frac_less) (auto intro: less_imp_le simp: a)
  then have up: "q < 2 powi (d + 1)"
    by (simp only: e1)
  have "2 powi (bitlen a - 1) / 2 powi (bitlen b) < q"
    unfolding q using of_int_bitlen_bounds [OF a] of_int_bitlen_bounds [OF b] bpos
    by (intro frac_less2) (auto intro: less_imp_le)
  then have low: "2 powi (d - 1) < q"
    by (simp only: e2)
  have il: "ilog2 q = (if 2 powi d \<le> q then d else d - 1)"
    by (simp add: ilog2_def ab d_def Let_def)
  show "2 powi (ilog2 q) \<le> q"
    using low by (simp add: il less_imp_le)
  show "q < 2 powi (ilog2 q + 1)"
    using up by (simp add: il not_le)
qed

lemma powi2_less_cancel:
  assumes "(2::rat) powi m < 2 powi n"
  shows "m < n"
proof (rule ccontr)
  assume "\<not> m < n"
  then have "n \<le> m" by simp
  then have "(2::rat) powi n \<le> 2 powi m"
    by (intro power_int_increasing) simp_all
  with assms show False by simp
qed

lemma ilog2_unique:
  assumes "2 powi e \<le> q" and "q < 2 powi (e + 1)"
  shows "ilog2 q = e"
proof -
  have pos: "0 < q"
    using assms(1) by (rule less_le_trans [rotated]) simp
  from ilog2_bounds [OF pos] assms
  have "(2::rat) powi e < 2 powi (ilog2 q + 1)" and "(2::rat) powi (ilog2 q) < 2 powi (e + 1)"
    by auto
  then have "e < ilog2 q + 1" and "ilog2 q < e + 1"
    by (auto dest: powi2_less_cancel)
  then show ?thesis
    by simp
qed

lemma ilog2_mono:
  assumes "0 < q" and "q \<le> q'"
  shows "ilog2 q \<le> ilog2 q'"
proof -
  have "0 < q'" using assms by simp
  from ilog2_bounds [OF assms(1)] ilog2_bounds [OF this] assms(2)
  have "(2::rat) powi (ilog2 q) < 2 powi (ilog2 q' + 1)"
    by auto
  then have "ilog2 q < ilog2 q' + 1"
    by (rule powi2_less_cancel)
  then show ?thesis by simp
qed


lemma round_half_even_of_int [simp]: "round_half_even (of_int n) = n"
  by (simp add: round_half_even_def)

lemma round_half_even_floor: "\<lfloor>q\<rfloor> \<le> round_half_even q" "round_half_even q \<le> \<lfloor>q\<rfloor> + 1"
  by (simp_all add: round_half_even_def Let_def)

lemma round_half_even_mono:
  assumes "q \<le> q'"
  shows "round_half_even q \<le> round_half_even q'"
proof (cases "\<lfloor>q\<rfloor> = \<lfloor>q'\<rfloor>")
  case True
  with assms show ?thesis
    by (auto simp add: round_half_even_def Let_def)
next
  case False
  with assms have "\<lfloor>q\<rfloor> + 1 \<le> \<lfloor>q'\<rfloor>"
    using floor_mono [OF assms] by simp
  with round_half_even_floor [of q] round_half_even_floor [of q'] show ?thesis
    by linarith
qed

lemma round_half_even_le:
  assumes "q \<le> of_int n"
  shows "round_half_even q \<le> n"
  using round_half_even_mono [OF assms] by simp

lemma round_half_even_ge:
  assumes "of_int n \<le> q"
  shows "n \<le> round_half_even q"
  using round_half_even_mono [OF assms] by simp

lemma round_half_even_small:
  assumes "0 \<le> q" and "q < 1 / 2"
  shows "round_half_even q = 0"
proof -
  have "\<lfloor>q\<rfloor> = 0"
    using assms by (simp add: floor_eq_iff)
  then show ?thesis
    using assms by (simp add: round_half_even_def)
qed


lemma round_binary64_alt:
  "round_binary64 q = of_int (round_half_even (q / 2 powi ulp_exp q)) * 2 powi ulp_exp q"
  by (simp add: round_binary64_def ulp_exp_def Let_def)

lemma round_binary64_nonneg:
  assumes "0 \<le> q"
  shows "0 \<le> round_binary64 q"
proof -
  have "0 \<le> q / 2 powi ulp_exp q"
    using assms by simp
  then have "0 \<le> round_half_even (q / 2 powi ulp_exp q)"
    using round_half_even_ge [of 0] by simp
  then show ?thesis
    by (simp add: round_binary64_alt)
qed

lemma round_binary64_upper:
  assumes "0 < q"
  shows "round_binary64 q \<le> 2 powi (ilog2 q + 1)"
proof -
  define u where "u = ulp_exp q"
  define k where "k = ilog2 q + 1 - u"
  have pu: "(0::rat) < 2 powi u"
    by simp
  have k: "(2::rat) powi (ilog2 q + 1) = 2 powi k * 2 powi u"
    by (simp add: k_def power_int_add [symmetric])
  have lt: "q / 2 powi u < 2 powi k"
    using ilog2_bounds(2) [OF assms] pu by (simp add: k pos_divide_less_eq)
  show ?thesis
  proof (cases "0 \<le> k")
    case True
    then have "(2::rat) powi k = of_int (2 ^ nat k)"
      by (simp add: power_int_def)
    with lt have "round_half_even (q / 2 powi u) \<le> 2 ^ nat k"
      by (intro round_half_even_le) simp
    then have "(of_int (round_half_even (q / 2 powi u)) :: rat) \<le> of_int (2 ^ nat k)"
      by (simp only: of_int_le_iff)
    also have "\<dots> = 2 powi k"
      using True by (simp add: power_int_def)
    finally show ?thesis
      using pu by (simp add: round_binary64_alt u_def [symmetric] k)
  next
    case False
    then have "k \<le> - 1" by simp
    then have "(2::rat) powi k \<le> 2 powi (- 1)"
      by (intro power_int_increasing) simp_all
    also have "(2::rat) powi (- 1) = 1 / 2"
      by simp
    finally have "q / 2 powi u < 1 / 2"
      using lt by (rule less_le_trans [rotated])
    moreover have "0 \<le> q / 2 powi u"
      using assms by simp
    ultimately have "round_half_even (q / 2 powi u) = 0"
      by (intro round_half_even_small)
    then show ?thesis
      by (simp add: round_binary64_alt u_def [symmetric])
  qed
qed

lemma round_binary64_lower:
  assumes "0 < q" and "- 1074 \<le> ilog2 q - 52"
  shows "2 powi (ilog2 q) \<le> round_binary64 q"
proof -
  have u: "ulp_exp q = ilog2 q - 52"
    using assms(2) by (simp add: ulp_exp_def)
  have pu: "(0::rat) < 2 powi (ilog2 q - 52)"
    by simp
  have e: "(2::rat) powi (ilog2 q) = 2 ^ 52 * 2 powi (ilog2 q - 52)"
  proof -
    have "(2::rat) powi (52 + (ilog2 q - 52)) = 2 powi 52 * 2 powi (ilog2 q - 52)"
      by (rule power_int_add) simp
    then show ?thesis by simp
  qed
  have "of_int (2 ^ 52) \<le> q / 2 powi (ilog2 q - 52)"
    using ilog2_bounds(1) [OF assms(1)] pu by (simp add: e pos_le_divide_eq)
  then have "2 ^ 52 \<le> round_half_even (q / 2 powi (ilog2 q - 52))"
    by (rule round_half_even_ge)
  then have "(of_int (2 ^ 52) :: rat) \<le> of_int (round_half_even (q / 2 powi (ilog2 q - 52)))"
    by (simp only: of_int_le_iff)
  then show ?thesis
    using pu by (simp add: round_binary64_alt u e)
qed

lemma round_binary64_mono:
  assumes "0 < q" and "q \<le> q'"
  shows "round_binary64 q \<le> round_binary64 q'"
proof -
  have q': "0 < q'"
    using assms by simp
  have le: "ulp_exp q \<le> ulp_exp q'"
    using ilog2_mono [OF assms] by (simp add: ulp_exp_def)
  show ?thesis
  proof (cases "ulp_exp q = ulp_exp q'")
    case True
    have "q / 2 powi ulp_exp q' \<le> q' / 2 powi ulp_exp q'"
      using assms(2) by (simp add: divide_right_mono)
    then have "round_half_even (q / 2 powi ulp_exp q') \<le> round_half_even (q' / 2 powi ulp_exp q')"
      by (rule round_half_even_mono)
    then show ?thesis
      by (simp add: round_binary64_alt True)
  next
    case False
    with le have lt: "ulp_exp q < ulp_exp q'"
      by simp
    then have big: "- 1074 \<le> ilog2 q' - 52" and "ilog2 q < ilog2 q'"
      by (simp_all add: ulp_exp_def max_def split: if_splits)
    then have "ilog2 q + 1 \<le> ilog2 q'"
      by simp
    then have "(2::rat) powi (ilog2 q + 1) \<le> 2 powi (ilog2 q')"
      by (intro power_int_increasing) simp_all
    with round_binary64_upper [OF assms(1)] round_binary64_lower [OF q' big]
    show ?thesis
      by linarith
  qed
qed


lemma to_number_pos:
  assumes "0 < q" and "round_binary64 q < 2 powi 1024"
  shows "to_number q = Fin (round_binary64 q)"
proof (cases "round_binary64 q = 0")
  case True
  with assms show ?thesis
    by (simp add: to_number_def)
next
  case False
  with round_binary64_nonneg [of q] assms(1) have pos: "0 < round_binary64 q"
    by simp
  from ilog2_bounds(1) [OF pos] assms(2)
  have "(2::rat) powi (ilog2 (round_binary64 q)) < 2 powi 1024"
    by (rule le_less_trans)
  then have "ilog2 (round_binary64 q) < 1024"
    by (rule powi2_less_cancel)
  with assms(1) False show ?thesis
    by (simp add: to_number_def Let_def)
qed

lemma to_number_eval:
  assumes "2 powi e \<le> q" and "q < 2 powi (e + 1)" and "- 1022 \<le> e" and "e < 1023"
    and "r = of_int (round_half_even (q / 2 powi (e - 52))) * 2 powi (e - 52)"
  shows "to_number q = Fin r"
proof -
  have pos: "0 < q"
    using assms(1) by (rule less_le_trans [rotated]) simp
  have il: "ilog2 q = e"
    using assms(1,2) by (rule ilog2_unique)
  have u: "ulp_exp q = e - 52"
    using assms(3) by (simp add: ulp_exp_def il)
  have r: "round_binary64 q = r"
    by (simp add: round_binary64_alt u assms(5))
  have "r \<le> 2 powi (e + 1)"
    using round_binary64_upper [OF pos] by (simp add: r il)
  also have "(2::rat) powi (e + 1) < 2 powi 1024"
    using assms(4) by (intro power_int_strict_increasing) simp_all
  finally have "round_binary64 q < 2 powi 1024"
    by (simp add: r)
  with pos show ?thesis
    by (simp add: to_number_pos r)
qed

lemma js_add_Fin:
  assumes "a \<noteq> 0 \<or> b \<noteq> 0"
  shows "js_add (Fin a) (Fin b) = to_number (a + b)"
  using assms by (auto simp add: js_add_def)

lemma js_mul_Fin:
  assumes "a \<noteq> 0" and "b \<noteq> 0"
  shows "js_mul (Fin a) (Fin b) = to_number (a * b)"
  using assms by (simp add: js_mul_def)

lemma floor_rat_numeral_div:
  "\<lfloor>(numeral a :: rat) / numeral b\<rfloor> = numeral a div numeral b"
  using floor_divide_of_int_eq [of "numeral a" "numeral b", where ?'a = rat] by simp

lemmas round_eval = round_half_even_def Let_def floor_rat_numeral_div


lemma js_div_Fin:
  assumes "a \<noteq> 0" and "b \<noteq> 0"
  shows "js_div (Fin a) (Fin b) = to_number (a / b)"
  using assms by (simp add: js_div_def)

lemma js_sub_Fin:
  assumes "a \<noteq> 0"
  shows "js_sub (Fin a) (Fin b) = to_number (a - b)"
  using assms by (simp add: js_sub_def js_add_def)

lemma to_number_Fin_pos:
  assumes "0 < q" and "to_number q = Fin c"
  shows "c = round_binary64 q" and "round_binary64 q < 2 powi 1024"
proof -
  have nn: "0 \<le> round_binary64 q"
    using assms(1) by (simp add: round_binary64_nonneg)
  show "c = round_binary64 q"
    using assms by (simp add: to_number_def Let_def split: if_splits)
  show "round_binary64 q < 2 powi 1024"
  proof (cases "round_binary64 q = 0")
    case True
    then show ?thesis by simp
  next
    case False
    with nn have pos: "0 < round_binary64 q"
      by simp
    from assms False have "ilog2 (round_binary64 q) + 1 \<le> 1024"
      by (simp add: to_number_def Let_def split: if_splits)
    then have "(2::rat) powi (ilog2 (round_binary64 q) + 1) \<le> 2 powi 1024"
      by (intro power_int_increasing) simp_all
    with ilog2_bounds(2) [OF pos] show ?thesis
      by (rule less_le_trans)
  qed
qed

lemma to_number_upper:
  assumes "0 < q" and "q \<le> q2" and "to_number q2 = Fin c2"
  shows "to_number q = Fin (round_binary64 q)" and "round_binary64 q \<le> c2"
proof -
  have q2: "0 < q2"
    using assms by simp
  from to_number_Fin_pos [OF q2 assms(3)] round_binary64_mono [OF assms(1,2)]
  show le: "round_binary64 q \<le> c2" and "to_number q = Fin (round_binary64 q)"
    using assms(1) by (simp_all add: to_number_pos)
qed

lemma to_number_between:
  assumes "0 < q1" and "q1 \<le> q" and "q \<le> q2"
    and "to_number q1 = Fin c1" and "to_number q2 = Fin c2"
  shows "in_range c1 c2 (to_number q)"
proof -
  have q: "0 < q"
    using assms by simp
  from to_number_upper [OF q assms(3,5)] to_number_Fin_pos(1) [OF assms(1,4)]
    round_binary64_mono [OF assms(1,2)]
  show ?thesis
    by (simp add: in_range_def)
qed

lemma to_number_below:
  assumes "0 < q" and "q \<le> q2" and "to_number q2 = Fin c2"
  shows "in_range 0 c2 (to_number q)"
  using to_number_upper [OF assms] round_binary64_nonneg [of q] assms(1)
  by (simp add: in_range_def)

lemma to_number_Fin_nonneg:
  assumes "0 \<le> q" and "to_number q = Fin c"
  shows "0 \<le> c"
proof (cases "q = 0")
  case True
  with assms show ?thesis by (simp add: to_number_def)
next
  case False
  with assms have "0 < q" by simp
  from to_number_Fin_pos(1) [OF this assms(2)] round_binary64_nonneg [OF assms(1)]
  show ?thesis by simp
qed

lemma in_range_cases:
  assumes "in_range lo hi x"
  obtains "x = NegZero" and "lo \<le> 0" and "0 \<le> hi"
  | q where "x = Fin q" and "lo \<le> q" and "q \<le> hi"
  using assms by (cases x) (simp_all add: in_range_def)

lemma in_range_weaken:
  assumes "in_range lo hi x" and "lo' \<le> lo" and "hi \<le> hi'"
  shows "in_range lo' hi' x"
  using assms by (cases x) (auto simp add: in_range_def)

lemma js_add_range:
  assumes "in_range 0 a x" and "in_range 0 b y" and "js_add (Fin a) (Fin b) = Fin c"
  shows "in_range 0 c (js_add x y)"
proof -
  from assms(1) have x: "x \<noteq> NaN" "\<not> is_inf x" "0 \<le> fval x" "fval x \<le> a"
    "is_zero x \<longleftrightarrow> fval x = 0"
    by (auto elim!: in_range_cases)
  from assms(2) have y: "y \<noteq> NaN" "\<not> is_inf y" "0 \<le> fval y" "fval y \<le> b"
    "is_zero y \<longleftrightarrow> fval y = 0"
    by (auto elim!: in_range_cases)
  have ab: "0 \<le> a" "0 \<le> b"
    using x y by simp_all
  have top: "to_number (a + b) = Fin c"
    using assms(3) ab by (auto simp add: js_add_def zero_of_def to_number_def split: if_splits)
  have c: "0 \<le> c"
    using to_number_Fin_nonneg [OF _ top] ab by simp
  show ?thesis
  proof (cases "is_zero x \<and> is_zero y")
    case True
    with x y c show ?thesis
      by (simp add: js_add_def zero_of_def in_range_def)
  next
    case False
    with x y have pos: "0 < fval x + fval y"
      by (auto simp add: add_nonneg_eq_0_iff less_le)
    have le: "fval x + fval y \<le> a + b"
      using x y by simp
    from False x(1,2) y(1,2) have "js_add x y = to_number (fval x + fval y)"
      by (auto simp add: js_add_def)
    with to_number_below [OF pos le top] show ?thesis
      by simp
  qed
qed

lemma js_mul_range:
  assumes "in_range 0 a x" and "0 < k" and "js_mul (Fin a) (Fin k) = Fin c"
  shows "in_range 0 c (js_mul x (Fin k))"
proof -
  from assms(1) have x: "x \<noteq> NaN" "\<not> is_inf x" "0 \<le> fval x" "fval x \<le> a"
    "is_zero x \<longleftrightarrow> fval x = 0"
    by (auto elim!: in_range_cases)
  have a: "0 \<le> a"
    using x by simp
  have top: "to_number (a * k) = Fin c"
    using assms(2,3) by (auto simp add: js_mul_def zero_of_def to_number_def split: if_splits)
  have c: "0 \<le> c"
    using to_number_Fin_nonneg [OF _ top] a assms(2) by simp
  show ?thesis
  proof (cases "is_zero x")
    case True
    with x c show ?thesis
      by (simp add: js_mul_def zero_of_def in_range_def)
  next
    case False
    with x assms(2) have pos: "0 < fval x * k"
      by (simp add: less_le)
    have le: "fval x * k \<le> a * k"
      using x assms(2) by simp
    from False x assms(2) have "js_mul x (Fin k) = to_number (fval x * k)"
      by (simp add: js_mul_def)
    with to_number_below [OF pos le top] show ?thesis
      by simp
  qed
qed

lemma js_div_range:
  assumes "in_range 0 a x" and "0 < k" and "js_div (Fin a) (Fin k) = Fin c"
  shows "in_range 0 c (js_div x (Fin k))"
proof -
  from assms(1) have x: "x \<noteq> NaN" "\<not> is_inf x" "0 \<le> fval x" "fval x \<le> a"
    "is_zero x \<longleftrightarrow> fval x = 0"
    by (auto elim!: in_range_cases)
  have a: "0 \<le> a"
    using x by simp
  have top: "to_number (a / k) = Fin c"
    using assms(2,3) by (auto simp add: js_div_def zero_of_def to_number_def split: if_splits)
  have c: "0 \<le> c"
    using to_number_Fin_nonneg [OF _ top] a assms(2) by simp
  show ?thesis
  proof (cases "is_zero x")
    case True
    with x c assms(2) show ?thesis
      by (simp add: js_div_def zero_of_def in_range_def)
  next
    case False
    with x assms(2) have pos: "0 < fval x / k"
      by (simp add: less_le)
    have le: "fval x / k \<le> a / k"
      using x assms(2) by (simp add: divide_right_mono)
    from False x assms(2) have "js_div x (Fin k) = to_number (fval x / k)"
      by (simp add: js_div_def)
    with to_number_below [OF pos le top] show ?thesis
      by simp
  qed
qed

lemma js_sub_range:
  assumes "in_range 0 a x" and "a < k" and "js_sub (Fin k) (Fin a) = Fin c"
    and "to_number k = Fin k"
  shows "in_range c k (js_sub (Fin k) x)"
proof -
  from assms(1) have x: "x \<noteq> NaN" "\<not> is_inf x" "0 \<le> fval x" "fval x \<le> a"
    by (auto elim!: in_range_cases)
  have k: "0 < k"
    using x assms(2) by simp
  have low: "to_number (k - a) = Fin c"
    using assms(3) k by (simp add: js_sub_Fin)
  have "js_sub (Fin k) x = to_number (k - fval x)"
    using assms(1) k
    by (auto elim!: in_range_cases simp add: js_sub_def js_add_def split: if_splits)
  moreover have "in_range c k (to_number (k - fval x))"
    using x assms(2) by (intro to_number_between [OF _ _ _ low assms(4)]) simp_all
  ultimately show ?thesis
    by simp
qed

text \<open>
  The rounding error is at most half a unit in the last place, and the classic sum
  0.1 + 0.2 comes out as in every binary64 implementation.
\<close>

lemma round_half_even_error: "\<bar>of_int (round_half_even q) - q\<bar> \<le> 1 / 2"
proof -
  have "of_int \<lfloor>q\<rfloor> \<le> q" and "q < of_int \<lfloor>q\<rfloor> + 1"
    by linarith+
  then show ?thesis
    by (auto simp add: round_half_even_def Let_def abs_le_iff)
qed

lemma round_binary64_error:
  "\<bar>round_binary64 q - q\<bar> \<le> 2 powi (ulp_exp q) / 2"
proof -
  define u where "u = ulp_exp q"
  have pu: "(0::rat) < 2 powi u"
    by simp
  have "round_binary64 q - q = (of_int (round_half_even (q / 2 powi u)) - q / 2 powi u) * 2 powi u"
    using pu by (simp add: round_binary64_alt u_def [symmetric] algebra_simps)
  then have "\<bar>round_binary64 q - q\<bar> =
      \<bar>of_int (round_half_even (q / 2 powi u)) - q / 2 powi u\<bar> * 2 powi u"
    using pu by (simp add: abs_mult)
  also have "\<dots> \<le> 1 / 2 * 2 powi u"
    using round_half_even_error [of "q / 2 powi u"] pu by (intro mult_right_mono) simp_all
  finally show ?thesis
    by (simp add: u_def)
qed

section \<open>The literals of the source\<close>

lemma lit_0: "lit 0 = Fin 0"
  by (simp add: lit_def to_number_def)

lemma lit_1: "lit 1 = Fin 1"
  unfolding lit_def by (rule to_number_eval [where e = "0"]) (simp_all add: round_eval)

lemma lit_2: "lit 2 = Fin 2"
  unfolding lit_def by (rule to_number_eval [where e = "1"]) (simp_all add: round_eval)

lemma lit_3: "lit 3 = Fin 3"
  unfolding lit_def by (rule to_number_eval [where e = "1"]) (simp_all add: round_eval)

lemma lit_100: "lit 100 = Fin 100"
  unfolding lit_def by (rule to_number_eval [where e = "6"]) (simp_all add: round_eval)

lemma lit_1_5: "lit (15 / 10) = Fin (3 / 2)"
  unfolding lit_def by (rule to_number_eval [where e = "0"]) (simp_all add: round_eval)

lemma lit_0_25: "lit (25 / 100) = Fin (1 / 4)"
  unfolding lit_def by (rule to_number_eval [where e = "-2"]) (simp_all add: round_eval)

lemma lit_0_15: "lit (15 / 100) = Fin (5404319552844595 / 36028797018963968)"
  unfolding lit_def by (rule to_number_eval [where e = "-3"]) (simp_all add: round_eval)

lemma lit_0_2: "lit (2 / 10) = Fin (3602879701896397 / 18014398509481984)"
  unfolding lit_def by (rule to_number_eval [where e = "-3"]) (simp_all add: round_eval)

lemma lit_0_20: "lit (20 / 100) = Fin (3602879701896397 / 18014398509481984)"
  unfolding lit_def by (rule to_number_eval [where e = "-3"]) (simp_all add: round_eval)

lemma lit_0_1: "lit (1 / 10) = Fin (3602879701896397 / 36028797018963968)"
  unfolding lit_def by (rule to_number_eval [where e = "-4"]) (simp_all add: round_eval)

lemma lit_0_10: "lit (10 / 100) = Fin (3602879701896397 / 36028797018963968)"
  unfolding lit_def by (rule to_number_eval [where e = "-4"]) (simp_all add: round_eval)

lemma lit_0_05: "lit (5 / 100) = Fin (3602879701896397 / 72057594037927936)"
  unfolding lit_def by (rule to_number_eval [where e = "-5"]) (simp_all add: round_eval)

lemma lit_0_95: "lit (95 / 100) = Fin (4278419646001971 / 4503599627370496)"
  unfolding lit_def by (rule to_number_eval [where e = "-1"]) (simp_all add: round_eval)

lemmas lits = lit_0 lit_1 lit_2 lit_3 lit_100 lit_1_5 lit_0_25 lit_0_15 lit_0_2 lit_0_20
  lit_0_1 lit_0_10 lit_0_05

section \<open>Arithmetic at the values that occur\<close>

lemma js_mul_zero:
  assumes "0 < c"
  shows "js_mul (Fin 0) (Fin c) = Fin 0" and "js_mul NegZero (Fin c) = NegZero"
  using assms by (simp_all add: js_mul_def zero_of_def)

lemma js_add_zero: "js_add (Fin 0) (Fin 0) = Fin 0"
  by (simp add: js_add_def zero_of_def)

lemma one_tenth_plus_two_tenths:
  "js_add (lit (1 / 10)) (lit (2 / 10)) = Fin (5404319552844596 / 18014398509481984)"
  "js_add (lit (1 / 10)) (lit (2 / 10)) \<noteq> lit (3 / 10)"
proof -
  have "lit (3 / 10) = Fin (5404319552844595 / 18014398509481984)"
    unfolding lit_def by (rule to_number_eval [where e = "-2"]) (simp_all add: round_eval)
  moreover show "js_add (lit (1 / 10)) (lit (2 / 10)) = Fin (5404319552844596 / 18014398509481984)"
    unfolding lit_0_1 lit_0_2
    by (simp add: js_add_Fin, rule to_number_eval [where e = "-2"]) (simp_all add: round_eval)
  ultimately show "js_add (lit (1 / 10)) (lit (2 / 10)) \<noteq> lit (3 / 10)"
    by simp
qed

subsection \<open>Products of a score and a weight\<close>

lemma mul_1_025: "js_mul (Fin 1) (Fin (1 / 4)) = Fin (1 / 4)"
  by (simp add: js_mul_Fin, rule to_number_eval [where e = "-2"]) (simp_all add: round_eval)

lemma mul_1_015:
  "js_mul (Fin 1) (Fin (5404319552844595 / 36028797018963968)) =
     Fin (5404319552844595 / 36028797018963968)"
  by (simp add: js_mul_Fin, rule to_number_eval [where e = "-3"]) (simp_all add: round_eval)

lemma mul_1_02:
  "js_mul (Fin 1) (Fin (3602879701896397 / 18014398509481984)) =
     Fin (3602879701896397 / 18014398509481984)"
  by (simp add: js_mul_Fin, rule to_number_eval [where e = "-3"]) (simp_all add: round_eval)

lemma mul_1_01:
  "js_mul (Fin 1) (Fin (3602879701896397 / 36028797018963968)) =
     Fin (3602879701896397 / 36028797018963968)"
  by (simp add: js_mul_Fin, rule to_number_eval [where e = "-4"]) (simp_all add: round_eval)

lemma mul_1_005:
  "js_mul (Fin 1) (Fin (3602879701896397 / 72057594037927936)) =
     Fin (3602879701896397 / 72057594037927936)"
  by (simp add: js_mul_Fin, rule to_number_eval [where e = "-5"]) (simp_all add: round_eval)

lemma mul_2_025: "js_mul (Fin 2) (Fin (1 / 4)) = Fin (1 / 2)"
  by (simp add: js_mul_Fin, rule to_number_eval [where e = "-1"]) (simp_all add: round_eval)

lemma mul_2_015:
  "js_mul (Fin 2) (Fin (5404319552844595 / 36028797018963968)) =
     Fin (5404319552844595 / 18014398509481984)"
  by (simp add: js_mul_Fin, rule to_number_eval [where e = "-2"]) (simp_all add: round_eval)

lemma mul_2_02:
  "js_mul (Fin 2) (Fin (3602879701896397 / 18014398509481984)) =
     Fin (3602879701896397 / 9007199254740992)"
  by (simp add: js_mul_Fin, rule to_number_eval [where e = "-2"]) (simp_all add: round_eval)

lemma mul_2_01:
  "js_mul (Fin 2) (Fin (3602879701896397 / 36028797018963968)) =
     Fin (3602879701896397 / 18014398509481984)"
  by (simp add: js_mul_Fin, rule to_number_eval [where e = "-3"]) (simp_all add: round_eval)

lemma mul_2_005:
  "js_mul (Fin 2) (Fin (3602879701896397 / 72057594037927936)) =
     Fin (3602879701896397 / 36028797018963968)"
  by (simp add: js_mul_Fin, rule to_number_eval [where e = "-4"]) (simp_all add: round_eval)

lemma mul_3_025: "js_mul (Fin 3) (Fin (1 / 4)) = Fin (3 / 4)"
  by (simp add: js_mul_Fin, rule to_number_eval [where e = "-1"]) (simp_all add: round_eval)

lemma mul_3_015:
  "js_mul (Fin 3) (Fin (5404319552844595 / 36028797018963968)) =
     Fin (2026619832316723 / 4503599627370496)"
  by (simp add: js_mul_Fin, rule to_number_eval [where e = "-2"]) (simp_all add: round_eval)

lemma mul_3_02:
  "js_mul (Fin 3) (Fin (3602879701896397 / 18014398509481984)) =
     Fin (1351079888211149 / 2251799813685248)"
  by (simp add: js_mul_Fin, rule to_number_eval [where e = "-1"]) (simp_all add: round_eval)

lemma mul_3_01:
  "js_mul (Fin 3) (Fin (3602879701896397 / 36028797018963968)) =
     Fin (1351079888211149 / 4503599627370496)"
  by (simp add: js_mul_Fin, rule to_number_eval [where e = "-2"]) (simp_all add: round_eval)

lemma mul_3_005:
  "js_mul (Fin 3) (Fin (3602879701896397 / 72057594037927936)) =
     Fin (1351079888211149 / 9007199254740992)"
  by (simp add: js_mul_Fin, rule to_number_eval [where e = "-3"]) (simp_all add: round_eval)

lemma mul_5_025: "js_mul (Fin 5) (Fin (1 / 4)) = Fin (5 / 4)"
  by (simp add: js_mul_Fin, rule to_number_eval [where e = "0"]) (simp_all add: round_eval)

lemma mul_5_015: "js_mul (Fin 5) (Fin (5404319552844595 / 36028797018963968)) = Fin (3 / 4)"
  by (simp add: js_mul_Fin, rule to_number_eval [where e = "-1"]) (simp_all add: round_eval)

lemma mul_5_01: "js_mul (Fin 5) (Fin (3602879701896397 / 36028797018963968)) = Fin (1 / 2)"
  by (simp add: js_mul_Fin, rule to_number_eval [where e = "-1"]) (simp_all add: round_eval)

lemmas products =
  mul_1_025 mul_1_015 mul_1_02 mul_1_01 mul_1_005
  mul_2_025 mul_2_015 mul_2_02 mul_2_01 mul_2_005
  mul_3_025 mul_3_015 mul_3_02 mul_3_01 mul_3_005
  mul_5_025 mul_5_015 mul_5_01

subsection \<open>The scores 2, 3, 3, 2, 3, 2\<close>

lemma sum_max_1: "js_add (Fin (1 / 2)) (Fin (3 / 4)) = Fin (5 / 4)"
  by (simp add: js_add_Fin, rule to_number_eval [where e = "0"]) (simp_all add: round_eval)

lemma sum_max_2:
  "js_add (Fin (5 / 4)) (Fin (2026619832316723 / 4503599627370496)) =
     Fin (7656119366529843 / 4503599627370496)"
  by (simp add: js_add_Fin, rule to_number_eval [where e = "0"]) (simp_all add: round_eval)

lemma sum_max_3:
  "js_add (Fin (7656119366529843 / 4503599627370496)) (Fin (3602879701896397 / 9007199254740992)) =
     Fin (4728779608739021 / 2251799813685248)"
  by (simp add: js_add_Fin, rule to_number_eval [where e = "1"]) (simp_all add: round_eval)

lemma sum_max_4:
  "js_add (Fin (4728779608739021 / 2251799813685248)) (Fin (1351079888211149 / 4503599627370496)) =
     Fin (1351079888211149 / 562949953421312)"
  by (simp add: js_add_Fin, rule to_number_eval [where e = "1"]) (simp_all add: round_eval)

lemma sum_max_5:
  "js_add (Fin (1351079888211149 / 562949953421312)) (Fin (3602879701896397 / 36028797018963968)) =
     Fin (5629499534213121 / 2251799813685248)"
  by (simp add: js_add_Fin, rule to_number_eval [where e = "1"]) (simp_all add: round_eval)

lemmas sums_max = sum_max_1 sum_max_2 sum_max_3 sum_max_4 sum_max_5

lemma conf_max_div:
  "js_div (Fin (5629499534213121 / 2251799813685248)) (Fin 3) =
     Fin (1876499844737707 / 2251799813685248)"
  by (simp add: js_div_Fin, rule to_number_eval [where e = "-1"]) (simp_all add: round_eval)

lemma conf_max_mul:
  "js_mul (Fin (1876499844737707 / 2251799813685248)) (Fin 100) =
     Fin (2932031007402667 / 35184372088832)"
  by (simp add: js_mul_Fin, rule to_number_eval [where e = "6"]) (simp_all add: round_eval)

lemma conf_max_sub:
  "js_sub (Fin 100) (Fin (2932031007402667 / 35184372088832)) =
     Fin (586406201480533 / 35184372088832)"
  by (simp add: js_sub_Fin, rule to_number_eval [where e = "4"]) (simp_all add: round_eval)

lemma sum_alt_1: "js_add (Fin (3 / 4)) (Fin (1 / 4)) = Fin 1"
  by (simp add: js_add_Fin, rule to_number_eval [where e = "0"]) (simp_all add: round_eval)

subsection \<open>The scores 1, 1, 1, 0, 3, 0\<close>

lemma sum_six_1: "js_add (Fin (1 / 4)) (Fin (1 / 4)) = Fin (1 / 2)"
  by (simp add: js_add_Fin, rule to_number_eval [where e = "-1"]) (simp_all add: round_eval)

lemma sum_six_2:
  "js_add (Fin (1 / 2)) (Fin (5404319552844595 / 36028797018963968)) =
     Fin (5854679515581645 / 9007199254740992)"
  by (simp add: js_add_Fin, rule to_number_eval [where e = "-1"]) (simp_all add: round_eval)

lemma sum_six_3:
  "js_add (Fin (5854679515581645 / 9007199254740992)) (Fin 0) =
     Fin (5854679515581645 / 9007199254740992)"
  by (simp add: js_add_Fin, rule to_number_eval [where e = "-1"]) (simp_all add: round_eval)

lemma sum_six_4:
  "js_add (Fin (5854679515581645 / 9007199254740992)) (Fin (1351079888211149 / 4503599627370496)) =
     Fin (8556839292003943 / 9007199254740992)"
  by (simp add: js_add_Fin, rule to_number_eval [where e = "-1"]) (simp_all add: round_eval)

lemma sum_six_5:
  "js_add (Fin (8556839292003943 / 9007199254740992)) (Fin 0) =
     Fin (8556839292003943 / 9007199254740992)"
  by (simp add: js_add_Fin, rule to_number_eval [where e = "-1"]) (simp_all add: round_eval)

lemmas sums_six = sum_six_1 sum_six_2 sum_six_3 sum_six_4 sum_six_5

lemma conf_six_div:
  "js_div (Fin (8556839292003943 / 9007199254740992)) (Fin 3) =
     Fin (5704559528002629 / 18014398509481984)"
  by (simp add: js_div_Fin, rule to_number_eval [where e = "-2"]) (simp_all add: round_eval)

lemma conf_six_mul:
  "js_mul (Fin (5704559528002629 / 18014398509481984)) (Fin 100) =
     Fin (2228343565626027 / 70368744177664)"
  by (simp add: js_mul_Fin, rule to_number_eval [where e = "4"]) (simp_all add: round_eval)

lemma conf_six_sub:
  "js_sub (Fin 100) (Fin (2228343565626027 / 70368744177664)) =
     Fin (4808530852140373 / 70368744177664)"
  by (simp add: js_sub_Fin, rule to_number_eval [where e = "6"]) (simp_all add: round_eval)

subsection \<open>The scores 2, 5, 5, 2, 5, 2\<close>

lemma sum_five_1: "js_add (Fin (1 / 2)) (Fin (5 / 4)) = Fin (7 / 4)"
  by (simp add: js_add_Fin, rule to_number_eval [where e = "0"]) (simp_all add: round_eval)

lemma sum_five_2: "js_add (Fin (7 / 4)) (Fin (3 / 4)) = Fin (5 / 2)"
  by (simp add: js_add_Fin, rule to_number_eval [where e = "1"]) (simp_all add: round_eval)

lemma sum_five_3:
  "js_add (Fin (5 / 2)) (Fin (3602879701896397 / 9007199254740992)) =
     Fin (6530219459687219 / 2251799813685248)"
  by (simp add: js_add_Fin, rule to_number_eval [where e = "1"]) (simp_all add: round_eval)

lemma sum_five_4:
  "js_add (Fin (6530219459687219 / 2251799813685248)) (Fin (1 / 2)) =
     Fin (7656119366529843 / 2251799813685248)"
  by (simp add: js_add_Fin, rule to_number_eval [where e = "1"]) (simp_all add: round_eval)

lemma sum_five_5:
  "js_add (Fin (7656119366529843 / 2251799813685248)) (Fin (3602879701896397 / 36028797018963968)) =
     Fin (7 / 2)"
  by (simp add: js_add_Fin, rule to_number_eval [where e = "1"]) (simp_all add: round_eval)

lemmas sums_five = sum_five_1 sum_five_2 sum_five_3 sum_five_4 sum_five_5

subsection \<open>The scores 2, 2, 0, 0, 0, 0\<close>

lemma sum_one_1: "js_add (Fin (1 / 2)) (Fin (1 / 2)) = Fin 1"
  by (simp add: js_add_Fin, rule to_number_eval [where e = "0"]) (simp_all add: round_eval)

lemma sum_one_2: "js_add (Fin 1) (Fin 0) = Fin 1"
  by (simp add: js_add_Fin, rule to_number_eval [where e = "0"]) (simp_all add: round_eval)

lemmas sums_one = sum_one_1 sum_one_2

lemma conf_one_div: "js_div (Fin 1) (Fin 3) = Fin (6004799503160661 / 18014398509481984)"
  by (simp add: js_div_Fin, rule to_number_eval [where e = "-2"]) (simp_all add: round_eval)

lemma conf_one_mul:
  "js_mul (Fin (6004799503160661 / 18014398509481984)) (Fin 100) =
     Fin (2345624805922133 / 70368744177664)"
  by (simp add: js_mul_Fin, rule to_number_eval [where e = "5"]) (simp_all add: round_eval)

lemma conf_one_sub:
  "js_sub (Fin 100) (Fin (2345624805922133 / 70368744177664)) =
     Fin (4691249611844267 / 70368744177664)"
  by (simp add: js_sub_Fin, rule to_number_eval [where e = "6"]) (simp_all add: round_eval)

subsection \<open>The scores 0, 0, 2, 2, 2, 2\<close>

lemma sum_edge_2:
  "js_add (Fin 0) (Fin (5404319552844595 / 18014398509481984)) =
     Fin (5404319552844595 / 18014398509481984)"
  by (simp add: js_add_Fin, rule to_number_eval [where e = "-2"]) (simp_all add: round_eval)

lemma sum_edge_3:
  "js_add (Fin (5404319552844595 / 18014398509481984)) (Fin (3602879701896397 / 9007199254740992)) =
     Fin (3152519739159347 / 4503599627370496)"
  by (simp add: js_add_Fin, rule to_number_eval [where e = "-1"]) (simp_all add: round_eval)

lemma sum_edge_4:
  "js_add (Fin (3152519739159347 / 4503599627370496)) (Fin (3602879701896397 / 18014398509481984)) =
     Fin (2026619832316723 / 2251799813685248)"
  by (simp add: js_add_Fin, rule to_number_eval [where e = "-1"]) (simp_all add: round_eval)

lemma sum_edge_5:
  "js_add (Fin (2026619832316723 / 2251799813685248)) (Fin (3602879701896397 / 36028797018963968)) =
     Fin (9007199254740991 / 9007199254740992)"
  by (simp add: js_add_Fin, rule to_number_eval [where e = "-1"]) (simp_all add: round_eval)

lemmas sums_edge = sum_edge_2 sum_edge_3 sum_edge_4 sum_edge_5

section \<open>The engine by cases\<close>

lemma code_weighted:
  "js_add (js_add (js_add (js_add (js_add
     (js_mul (irreversibility s) (lit (25 / 100)))
     (js_mul (external_impact s) (lit (25 / 100))))
     (js_mul (financial s) (lit (15 / 100))))
     (js_mul (safety s) (lit (2 / 10))))
     (js_mul (missing_context s) (lit (1 / 10))))
     (js_mul (policy_violation s) (lit (5 / 100))) = weighted_formula s"
  unfolding weighted_formula_def lits ..

lemma calculateVerdict_cases:
  "calculateVerdict s =
     (if js_ge (safety s) (Fin 3) then safety_block
      else if js_ge (irreversibility s) (Fin 3) \<and> js_ge (external_impact s) (Fin 2)
        then irreversibility_block
      else if js_ge (policy_violation s) (Fin 3) then policy_block
      else \<lparr>type =
               (if js_lt (weighted_formula s) (Fin 1) then APPROVE
                else if js_lt (weighted_formula s) (Fin (3 / 2)) then APPROVE_WITH_NOTICE
                else if js_ge (missing_context s) (Fin 2) then ASK_FOR_CLARIFICATION
                else if js_lt (weighted_formula s) (Fin 2) then MODIFY else BLOCK),
             confidence = code_confidence (weighted_formula s),
             weightedScore = weighted_formula s,
             triggeredRules =
               (if js_lt (weighted_formula s) (Fin 1) then [''Weighted score < 1.0'']
                else if js_lt (weighted_formula s) (Fin (3 / 2)) then [''Weighted score < 1.5'']
                else if js_ge (missing_context s) (Fin 2)
                  then [''Missing Context '' @ ge_sign @ '' 2'']
                else if js_lt (weighted_formula s) (Fin 2) then [''Weighted score < 2.0'']
                else [''Weighted score '' @ ge_sign @ '' 2.0''])\<rparr>)"
  unfolding calculateVerdict_def code_weighted
  unfolding lits Let_def push_def safety_block_def irreversibility_block_def policy_block_def
    code_confidence_def
  by simp

lemma ladder_verdict:
  assumes "no_override s"
  shows "weightedScore (calculateVerdict s) = weighted_formula s"
    and "confidence (calculateVerdict s) = code_confidence (weighted_formula s)"
    and "type (calculateVerdict s) =
           (if js_lt (weighted_formula s) (Fin 1) then APPROVE
            else if js_lt (weighted_formula s) (Fin (3 / 2)) then APPROVE_WITH_NOTICE
            else if js_ge (missing_context s) (Fin 2) then ASK_FOR_CLARIFICATION
            else if js_lt (weighted_formula s) (Fin 2) then MODIFY else BLOCK)"
    and "triggeredRules (calculateVerdict s) =
           (if js_lt (weighted_formula s) (Fin 1) then [''Weighted score < 1.0'']
            else if js_lt (weighted_formula s) (Fin (3 / 2)) then [''Weighted score < 1.5'']
            else if js_ge (missing_context s) (Fin 2)
              then [''Missing Context '' @ ge_sign @ '' 2'']
            else if js_lt (weighted_formula s) (Fin 2) then [''Weighted score < 2.0'']
            else [''Weighted score '' @ ge_sign @ '' 2.0''])"
proof -
  from assms have no:
    "\<not> js_ge (safety s) (Fin 3)"
    "\<not> (js_ge (irreversibility s) (Fin 3) \<and> js_ge (external_impact s) (Fin 2))"
    "\<not> js_ge (policy_violation s) (Fin 3)"
    by (simp_all add: no_override_def)
  note c = calculateVerdict_cases [of s, unfolded if_not_P [OF no(1)] if_not_P [OF no(2)]
      if_not_P [OF no(3)]]
  show "weightedScore (calculateVerdict s) = weighted_formula s"
    and "confidence (calculateVerdict s) = code_confidence (weighted_formula s)"
    by (simp_all add: c)
  show "type (calculateVerdict s) =
           (if js_lt (weighted_formula s) (Fin 1) then APPROVE
            else if js_lt (weighted_formula s) (Fin (3 / 2)) then APPROVE_WITH_NOTICE
            else if js_ge (missing_context s) (Fin 2) then ASK_FOR_CLARIFICATION
            else if js_lt (weighted_formula s) (Fin 2) then MODIFY else BLOCK)"
    by (simp add: c)
  show "triggeredRules (calculateVerdict s) =
           (if js_lt (weighted_formula s) (Fin 1) then [''Weighted score < 1.0'']
            else if js_lt (weighted_formula s) (Fin (3 / 2)) then [''Weighted score < 1.5'']
            else if js_ge (missing_context s) (Fin 2)
              then [''Missing Context '' @ ge_sign @ '' 2'']
            else if js_lt (weighted_formula s) (Fin 2) then [''Weighted score < 2.0'']
            else [''Weighted score '' @ ge_sign @ '' 2.0''])"
    by (simp add: c)
qed

lemma scores_of_sel [simp]:
  "irreversibility (scores_of a b c d e f) = Fin a"
  "external_impact (scores_of a b c d e f) = Fin b"
  "financial (scores_of a b c d e f) = Fin c"
  "safety (scores_of a b c d e f) = Fin d"
  "missing_context (scores_of a b c d e f) = Fin e"
  "policy_violation (scores_of a b c d e f) = Fin f"
  by (simp_all add: scores_of_def)

lemma js_ge_Fin [simp]: "js_ge (Fin a) (Fin b) = (b \<le> a)"
  by (auto simp add: js_ge_def js_lt_def)

lemma js_lt_Fin [simp]: "js_lt (Fin a) (Fin b) = (a < b)"
  by (simp add: js_lt_def)

lemma js_lt_not_ge: "js_lt x y \<Longrightarrow> \<not> js_ge x y"
  by (simp add: js_ge_def)

lemma js_lt_mono:
  assumes "js_lt x (Fin a)" and "a \<le> b"
  shows "js_lt x (Fin b)"
  using assms by (cases x) (auto simp add: js_lt_def)

lemma js_ge_trans_lt:
  assumes "js_ge x (Fin a)" and "b \<le> a"
  shows "\<not> js_lt x (Fin b)"
  using assms by (cases x) (auto simp add: js_ge_def js_lt_def)

lemma scores_of_well_formed:
  assumes "a \<in> {0, 1, 2, 3}" and "b \<in> {0, 1, 2, 3}" and "c \<in> {0, 1, 2, 3}"
    and "d \<in> {0, 1, 2, 3}" and "e \<in> {0, 1, 2, 3}" and "f \<in> {0, 1, 2, 3}"
  shows "well_formed (scores_of a b c d e f)"
  using assms by (auto simp add: well_formed_def is_score_def)

section \<open>The weighted score and the confidence at concrete inputs\<close>

lemma weighted_max: "weighted_formula (scores_of 2 3 3 2 3 2) = Fin w_max"
  unfolding weighted_formula_def lits w_max_def
  by (simp add: products sums_max)

lemma weighted_six:
  "weighted_formula (scores_of 1 1 1 0 3 0) = Fin (8556839292003943 / 9007199254740992)"
  unfolding weighted_formula_def lits
  by (simp add: products js_mul_zero sums_six)

lemma weighted_five: "weighted_formula (scores_of 2 5 5 2 5 2) = Fin (7 / 2)"
  unfolding weighted_formula_def lits
  by (simp add: products sums_five)

lemma weighted_zero: "weighted_formula (scores_of 0 0 0 0 0 0) = Fin 0"
  unfolding weighted_formula_def lits
  by (simp add: js_mul_zero js_add_zero)

lemma weighted_one: "weighted_formula (scores_of 2 2 0 0 0 0) = Fin 1"
  unfolding weighted_formula_def lits
  by (simp add: products js_mul_zero sums_one)

text \<open>
  The weights of the scores 0, 0, 2, 2, 2, 2 add up to 1.0 in decimal arithmetic, and
  to 0.9999999999999999 in the arithmetic of the source.
\<close>

lemma weighted_edge:
  "weighted_formula (scores_of 0 0 2 2 2 2) = Fin (9007199254740991 / 9007199254740992)"
  unfolding weighted_formula_def lits
  by (simp add: products js_mul_zero js_add_zero sums_edge)

lemma verdict_edge:
  "weightedScore (calculateVerdict (scores_of 0 0 2 2 2 2)) = Fin (1 - 1 / 2 ^ 53)"
  "type (calculateVerdict (scores_of 0 0 2 2 2 2)) = APPROVE"
proof -
  have no: "no_override (scores_of 0 0 2 2 2 2)"
    by (simp add: no_override_def)
  show "weightedScore (calculateVerdict (scores_of 0 0 2 2 2 2)) = Fin (1 - 1 / 2 ^ 53)"
    and "type (calculateVerdict (scores_of 0 0 2 2 2 2)) = APPROVE"
    by (simp_all add: ladder_verdict [OF no] weighted_edge)
qed

lemma raw_confidence_max: "raw_confidence (Fin w_max) = Fin c_min"
  unfolding raw_confidence_def w_max_def c_min_def
  by (simp add: conf_max_div conf_max_mul conf_max_sub)

lemma raw_confidence_six:
  "raw_confidence (Fin (8556839292003943 / 9007199254740992)) =
     Fin (4808530852140373 / 70368744177664)"
  unfolding raw_confidence_def
  by (simp add: conf_six_div conf_six_mul conf_six_sub)

lemma raw_confidence_one: "raw_confidence (Fin 1) = Fin (4691249611844267 / 70368744177664)"
  unfolding raw_confidence_def
  by (simp add: conf_one_div conf_one_mul conf_one_sub)

section \<open>Bounds on the ladder path\<close>

lemma score_range:
  "is_score x \<Longrightarrow> in_range 0 3 x"
  "is_score x \<Longrightarrow> \<not> js_ge x (Fin 3) \<Longrightarrow> in_range 0 2 x"
  "is_score x \<Longrightarrow> \<not> js_ge x (Fin 2) \<Longrightarrow> in_range 0 1 x"
  by (auto simp add: is_score_def in_range_def)

lemma in_range_compare:
  assumes "in_range lo hi x"
  shows "js_ge x (Fin lo)" and "js_ge (Fin hi) x" and "x \<noteq> NaN"
  using assms by (cases x; simp add: in_range_def js_ge_def js_lt_def)+

lemma in_range_lt:
  assumes "in_range lo hi x" and "hi < b"
  shows "js_lt x (Fin b)"
  using assms by (cases x) (simp_all add: in_range_def js_lt_def)

lemma in_range_gt:
  assumes "in_range lo hi x" and "b < lo"
  shows "js_lt (Fin b) x"
  using assms by (cases x) (simp_all add: in_range_def js_lt_def)

lemma weighted_range:
  assumes "well_formed s" and "no_override s"
  shows "in_range 0 w_max (weighted_formula s)"
proof -
  from assms(1) have wf:
    "is_score (irreversibility s)" "is_score (external_impact s)" "is_score (financial s)"
    "is_score (safety s)" "is_score (missing_context s)" "is_score (policy_violation s)"
    by (simp_all add: well_formed_def)
  from assms(2) have no:
    "\<not> js_ge (safety s) (Fin 3)"
    "\<not> (js_ge (irreversibility s) (Fin 3) \<and> js_ge (external_impact s) (Fin 2))"
    "\<not> js_ge (policy_violation s) (Fin 3)"
    by (simp_all add: no_override_def)
  have t1: "in_range 0 (5 / 4)
    (js_add (js_mul (irreversibility s) (Fin (1 / 4))) (js_mul (external_impact s) (Fin (1 / 4))))"
  proof (cases "js_ge (irreversibility s) (Fin 3)")
    case True
    with no(2) have "\<not> js_ge (external_impact s) (Fin 2)"
      by simp
    with wf(2) have "in_range 0 1 (external_impact s)"
      by (rule score_range(3))
    then have b: "in_range 0 (1 / 4) (js_mul (external_impact s) (Fin (1 / 4)))"
      by (rule js_mul_range [OF _ _ mul_1_025]) simp
    have a: "in_range 0 (3 / 4) (js_mul (irreversibility s) (Fin (1 / 4)))"
      by (rule js_mul_range [OF score_range(1) [OF wf(1)] _ mul_3_025]) simp
    from js_add_range [OF a b sum_alt_1] show ?thesis
      by (rule in_range_weaken) simp_all
  next
    case False
    with wf(1) have "in_range 0 2 (irreversibility s)"
      by (rule score_range(2))
    then have a: "in_range 0 (1 / 2) (js_mul (irreversibility s) (Fin (1 / 4)))"
      by (rule js_mul_range [OF _ _ mul_2_025]) simp
    have b: "in_range 0 (3 / 4) (js_mul (external_impact s) (Fin (1 / 4)))"
      by (rule js_mul_range [OF score_range(1) [OF wf(2)] _ mul_3_025]) simp
    show ?thesis
      by (rule js_add_range [OF a b sum_max_1])
  qed
  have p3: "in_range 0 (2026619832316723 / 4503599627370496)
    (js_mul (financial s) (Fin (5404319552844595 / 36028797018963968)))"
    by (rule js_mul_range [OF score_range(1) [OF wf(3)] _ mul_3_015]) simp
  note t2 = js_add_range [OF t1 p3 sum_max_2]
  have p4: "in_range 0 (3602879701896397 / 9007199254740992)
    (js_mul (safety s) (Fin (3602879701896397 / 18014398509481984)))"
    by (rule js_mul_range [OF score_range(2) [OF wf(4) no(1)] _ mul_2_02]) simp
  note t3 = js_add_range [OF t2 p4 sum_max_3]
  have p5: "in_range 0 (1351079888211149 / 4503599627370496)
    (js_mul (missing_context s) (Fin (3602879701896397 / 36028797018963968)))"
    by (rule js_mul_range [OF score_range(1) [OF wf(5)] _ mul_3_01]) simp
  note t4 = js_add_range [OF t3 p5 sum_max_4]
  have p6: "in_range 0 (3602879701896397 / 36028797018963968)
    (js_mul (policy_violation s) (Fin (3602879701896397 / 72057594037927936)))"
    by (rule js_mul_range [OF score_range(2) [OF wf(6) no(3)] _ mul_2_005]) simp
  note t5 = js_add_range [OF t4 p6 sum_max_5]
  show ?thesis
    unfolding weighted_formula_def lits w_max_def by (rule t5)
qed

lemma raw_confidence_range:
  assumes "in_range 0 w_max w"
  shows "in_range c_min 100 (raw_confidence w)"
proof -
  have d: "in_range 0 (1876499844737707 / 2251799813685248) (js_div w (Fin 3))"
    by (rule js_div_range [OF assms [unfolded w_max_def] _ conf_max_div]) simp
  have m: "in_range 0 (2932031007402667 / 35184372088832) (js_mul (js_div w (Fin 3)) (Fin 100))"
    by (rule js_mul_range [OF d _ conf_max_mul]) simp
  have "to_number 100 = Fin 100"
    using lit_100 by (simp add: lit_def)
  with m show ?thesis
    unfolding raw_confidence_def c_min_def
    by (intro js_sub_range [OF _ _ conf_max_sub]) simp_all
qed

lemma clamps_identity:
  assumes "in_range lo 100 x" and "0 < lo"
  shows "math_max (Fin 0) (math_min (Fin 100) x) = x" and "clamp x (Fin 0) (Fin 100) = x"
  using assms by (cases x; auto simp add: in_range_def math_max_def math_min_def clamp_def)+

lemma c_min_pos: "0 < c_min"
  by (simp add: c_min_def)

lemma ladder_confidence:
  assumes "well_formed s" and "no_override s"
  shows "in_range c_min 100 (raw_confidence (weighted_formula s))"
    and "confidence (calculateVerdict s) = raw_confidence (weighted_formula s)"
    and "confidence_formula (weighted_formula s) = raw_confidence (weighted_formula s)"
proof -
  show r: "in_range c_min 100 (raw_confidence (weighted_formula s))"
    by (rule raw_confidence_range [OF weighted_range [OF assms]])
  from clamps_identity [OF r c_min_pos]
  show "confidence (calculateVerdict s) = raw_confidence (weighted_formula s)"
    and "confidence_formula (weighted_formula s) = raw_confidence (weighted_formula s)"
    by (simp_all add: ladder_verdict(2) [OF assms(2)] code_confidence_def confidence_formula_def
        raw_confidence_def)
qed

section \<open>The threshold ladder\<close>

text \<open>
  C1. On a well-formed input on which no hard override fires, the returned weighted
  score is the weighted sum of the six input scores, and the verdict type follows the
  ladder on it, first match first and with strict comparisons: below 1.0 APPROVE; from
  1.0 and below 1.5 APPROVE_WITH_NOTICE; from 1.5 with \<open>missing_context >= 2\<close>
  ASK_FOR_CLARIFICATION, however high the score; otherwise from 1.5 and below 2.0
  MODIFY, and from 2.0 BLOCK. So a score of exactly 1.0 gives APPROVE_WITH_NOTICE and a
  score of exactly 2.0 gives BLOCK. The weighted sum is never not-a-number there, so one
  of the cases always applies. The weighted sum is the binary64 one: the scores
  2, 2, 0, 0, 0, 0 have the sum 1.0 and get APPROVE_WITH_NOTICE, while the scores
  0, 0, 2, 2, 2, 2, whose weights add up to 1.0 in decimal arithmetic, have the sum
  0.9999999999999999 and get APPROVE.
\<close>

theorem threshold_ladder:
  assumes "well_formed s" and "no_override s"
  shows "weightedScore (calculateVerdict s) = weighted_formula s \<and>
         type (calculateVerdict s) =
           (if js_lt (weighted_formula s) (Fin 1) then APPROVE
            else if js_lt (weighted_formula s) (Fin (3 / 2)) then APPROVE_WITH_NOTICE
            else if js_ge (missing_context s) (Fin 2) then ASK_FOR_CLARIFICATION
            else if js_lt (weighted_formula s) (Fin 2) then MODIFY else BLOCK) \<and>
         (js_lt (weighted_formula s) (Fin 1)
            \<longrightarrow> type (calculateVerdict s) = APPROVE) \<and>
         (js_ge (weighted_formula s) (Fin 1) \<and> js_lt (weighted_formula s) (Fin (3 / 2))
            \<longrightarrow> type (calculateVerdict s) = APPROVE_WITH_NOTICE) \<and>
         (js_ge (weighted_formula s) (Fin (3 / 2)) \<and> js_ge (missing_context s) (Fin 2)
            \<longrightarrow> type (calculateVerdict s) = ASK_FOR_CLARIFICATION) \<and>
         (js_ge (weighted_formula s) (Fin (3 / 2)) \<and> js_lt (weighted_formula s) (Fin 2) \<and>
          \<not> js_ge (missing_context s) (Fin 2)
            \<longrightarrow> type (calculateVerdict s) = MODIFY) \<and>
         (js_ge (weighted_formula s) (Fin 2) \<and> \<not> js_ge (missing_context s) (Fin 2)
            \<longrightarrow> type (calculateVerdict s) = BLOCK) \<and>
         (weighted_formula s = Fin 1 \<longrightarrow> type (calculateVerdict s) = APPROVE_WITH_NOTICE) \<and>
         (weighted_formula s = Fin 2 \<and> \<not> js_ge (missing_context s) (Fin 2)
            \<longrightarrow> type (calculateVerdict s) = BLOCK) \<and>
         weighted_formula s \<noteq> NaN"
proof -
  have "weighted_formula s \<noteq> NaN"
    using weighted_range [OF assms] by (rule in_range_compare(3))
  moreover have "js_lt (weighted_formula s) (Fin 1) \<Longrightarrow> js_lt (weighted_formula s) (Fin (3 / 2))"
    by (erule js_lt_mono) simp
  moreover have "js_lt (weighted_formula s) (Fin (3 / 2)) \<Longrightarrow> js_lt (weighted_formula s) (Fin 2)"
    by (erule js_lt_mono) simp
  ultimately show ?thesis
    by (auto simp add: ladder_verdict [OF assms(2)] js_ge_def)
qed

theorem threshold_ladder_witness:
  "well_formed (scores_of 0 0 0 0 0 0) \<and> no_override (scores_of 0 0 0 0 0 0) \<and>
   weightedScore (calculateVerdict (scores_of 0 0 0 0 0 0)) = Fin 0 \<and>
   type (calculateVerdict (scores_of 0 0 0 0 0 0)) = APPROVE \<and>
   well_formed (scores_of 2 2 0 0 0 0) \<and> no_override (scores_of 2 2 0 0 0 0) \<and>
   weightedScore (calculateVerdict (scores_of 2 2 0 0 0 0)) = Fin 1 \<and>
   type (calculateVerdict (scores_of 2 2 0 0 0 0)) = APPROVE_WITH_NOTICE \<and>
   well_formed (scores_of 0 0 2 2 2 2) \<and> no_override (scores_of 0 0 2 2 2 2) \<and>
   weightedScore (calculateVerdict (scores_of 0 0 2 2 2 2)) = Fin (1 - 1 / 2 ^ 53) \<and>
   type (calculateVerdict (scores_of 0 0 2 2 2 2)) = APPROVE \<and>
   well_formed (scores_of 2 3 3 2 3 2) \<and> no_override (scores_of 2 3 3 2 3 2) \<and>
   weightedScore (calculateVerdict (scores_of 2 3 3 2 3 2)) = Fin w_max \<and>
   type (calculateVerdict (scores_of 2 3 3 2 3 2)) = ASK_FOR_CLARIFICATION"
proof -
  have wf: "well_formed (scores_of 0 0 0 0 0 0)" "well_formed (scores_of 2 2 0 0 0 0)"
    "well_formed (scores_of 0 0 2 2 2 2)" "well_formed (scores_of 2 3 3 2 3 2)"
    by (rule scores_of_well_formed; simp)+
  have no: "no_override (scores_of 0 0 0 0 0 0)" "no_override (scores_of 2 2 0 0 0 0)"
    "no_override (scores_of 0 0 2 2 2 2)" "no_override (scores_of 2 3 3 2 3 2)"
    by (simp_all add: no_override_def)
  from threshold_ladder [OF wf(1) no(1)] threshold_ladder [OF wf(2) no(2)]
    threshold_ladder [OF wf(3) no(3)] threshold_ladder [OF wf(4) no(4)]
  show ?thesis
    using wf no
    by (simp add: weighted_zero weighted_one weighted_edge weighted_max w_max_def)
qed

section \<open>The safety override\<close>

text \<open>
  C2. Whenever \<open>safety >= 3\<close> holds, the verdict is BLOCK with confidence 100 and
  weighted score 0, and its list of triggered rules has exactly one entry, the message of
  the safety override. The test is the first of the function, so no other rule is
  looked at.
\<close>

theorem safety_override:
  assumes "js_ge (safety s) (Fin 3)"
  shows "type (calculateVerdict s) = BLOCK \<and>
         confidence (calculateVerdict s) = Fin 100 \<and>
         weightedScore (calculateVerdict s) = Fin 0 \<and>
         triggeredRules (calculateVerdict s) = [''CRITICAL: Safety score '' @ ge_sign @ '' 3''] \<and>
         length (triggeredRules (calculateVerdict s)) = 1"
  using assms by (simp add: calculateVerdict_cases safety_block_def)

theorem safety_override_witness:
  "js_ge (safety (scores_of 3 3 3 3 3 3)) (Fin 3) \<and>
   calculateVerdict (scores_of 3 3 3 3 3 3) = safety_block"
proof -
  have h: "js_ge (safety (scores_of 3 3 3 3 3 3)) (Fin 3)"
    by simp
  from safety_override [OF h] show ?thesis
    using h by (simp add: safety_block_def)
qed

section \<open>The order of the overrides\<close>

text \<open>
  C3. The overrides are tried in the order safety, irreversibility with external impact,
  policy. With \<open>safety < 3\<close>, \<open>irreversibility >= 3\<close> and \<open>external_impact >= 2\<close>
  the verdict is the BLOCK (confidence 100, weighted score 0) whose single rule names the
  irreversibility and external-impact override; when neither of these two overrides
  matches and \<open>policy_violation >= 3\<close>, the verdict is the BLOCK whose single rule names
  the policy override.
\<close>

theorem override_order:
  "(js_lt (safety s) (Fin 3) \<and> js_ge (irreversibility s) (Fin 3) \<and>
      js_ge (external_impact s) (Fin 2)
    \<longrightarrow> calculateVerdict s = irreversibility_block) \<and>
   (\<not> js_ge (safety s) (Fin 3) \<and>
      \<not> (js_ge (irreversibility s) (Fin 3) \<and> js_ge (external_impact s) (Fin 2)) \<and>
      js_ge (policy_violation s) (Fin 3)
    \<longrightarrow> calculateVerdict s = policy_block)"
  by (auto simp add: calculateVerdict_cases dest: js_lt_not_ge)

theorem override_order_witness:
  "calculateVerdict (scores_of 3 2 0 2 0 3) = irreversibility_block \<and>
   calculateVerdict (scores_of 3 1 0 2 0 3) = policy_block"
  using override_order [of "scores_of 3 2 0 2 0 3"] override_order [of "scores_of 3 1 0 2 0 3"]
  by simp

section \<open>The weighted score and the confidence\<close>

text \<open>
  C4. On a well-formed input on which no hard override fires, the returned weighted
  score is the formula of the specification, irreversibility times 0.25 plus
  external impact times 0.25 plus financial times 0.15 plus safety times 0.20 plus
  missing context times 0.10 plus policy violation times 0.05, evaluated as the source
  evaluates it; the returned confidence is the clamp of 100 minus the weighted score
  divided by 3 and multiplied by 100 to the range from 0 to 100, and it lies between 0
  and 100.
\<close>

theorem weighted_score_and_confidence:
  assumes "well_formed s" and "no_override s"
  shows "weightedScore (calculateVerdict s) = weighted_formula s \<and>
         confidence (calculateVerdict s) = confidence_formula (weightedScore (calculateVerdict s)) \<and>
         js_ge (confidence (calculateVerdict s)) (Fin 0) \<and>
         js_ge (Fin 100) (confidence (calculateVerdict s))"
proof -
  note r = ladder_confidence [OF assms]
  have "js_ge (raw_confidence (weighted_formula s)) (Fin 0)"
    using in_range_weaken [OF r(1) less_imp_le [OF c_min_pos] order_refl]
    by (rule in_range_compare(1))
  moreover have "js_ge (Fin 100) (raw_confidence (weighted_formula s))"
    using r(1) by (rule in_range_compare(2))
  ultimately show ?thesis
    by (simp add: ladder_verdict(1) [OF assms(2)] r(2,3))
qed

theorem weighted_score_and_confidence_witness:
  "well_formed (scores_of 1 1 1 0 3 0) \<and> no_override (scores_of 1 1 1 0 3 0) \<and>
   weightedScore (calculateVerdict (scores_of 1 1 1 0 3 0)) =
     Fin (8556839292003943 / 9007199254740992) \<and>
   confidence (calculateVerdict (scores_of 1 1 1 0 3 0)) =
     confidence_formula (Fin (8556839292003943 / 9007199254740992)) \<and>
   confidence_formula (Fin (8556839292003943 / 9007199254740992)) =
     Fin (4808530852140373 / 70368744177664)"
proof -
  have wf: "well_formed (scores_of 1 1 1 0 3 0)"
    by (rule scores_of_well_formed) simp_all
  have no: "no_override (scores_of 1 1 1 0 3 0)"
    by (simp add: no_override_def)
  have c: "confidence_formula (Fin (8556839292003943 / 9007199254740992)) =
      Fin (4808530852140373 / 70368744177664)"
    using raw_confidence_six
    by (simp add: confidence_formula_def raw_confidence_def clamp_def)
  from weighted_score_and_confidence [OF wf no] show ?thesis
    using wf no c by (simp add: weighted_six)
qed

section \<open>The triggered rule\<close>

text \<open>
  C5. For every input, on an override as on the threshold ladder, the list of triggered
  rules has exactly one entry: the message of the first rule of the ordered rule list
  whose condition holds.
\<close>

theorem single_triggered_rule:
  "triggeredRules (calculateVerdict s) = first_match (rule_table s) \<and>
   length (triggeredRules (calculateVerdict s)) = 1"
  by (simp add: calculateVerdict_cases first_match_def rule_table_def safety_block_def
      irreversibility_block_def policy_block_def)

section \<open>The scenario with missing context 3\<close>

text \<open>
  C6. The claim is that the scores 1, 1, 1, 0, 3, 0 give a weighted score exactly equal to
  0.95. They do not: three times 0.1 is 0.30000000000000004 in binary64, and the sum
  is the binary64 number above the one that the literal 0.95 denotes.
\<close>

theorem scenario_score_not_0_95:
  "weightedScore (calculateVerdict (scores_of 1 1 1 0 3 0)) \<noteq> lit (95 / 100) \<and>
   weightedScore (calculateVerdict (scores_of 1 1 1 0 3 0)) \<noteq> Fin (95 / 100)"
proof -
  have no: "no_override (scores_of 1 1 1 0 3 0)"
    by (simp add: no_override_def)
  show ?thesis
    unfolding lit_0_95 by (simp add: ladder_verdict(1) [OF no] weighted_six)
qed

text \<open>
  C6, as amended. The scores 1, 1, 1, 0, 3, 0 give the weighted score
  \<open>8556839292003943 / 2 ^ 53\<close>, printed 0.9500000000000001, which exceeds 0.95 by less
  than \<open>1 / 2 ^ 53\<close>, and the verdict APPROVE with the single rule of the first
  threshold, although \<open>missing_context\<close> is 3: the missing-context rule comes after
  the thresholds 1.0 and 1.5.
\<close>

theorem scenario_score_and_verdict:
  "weightedScore (calculateVerdict (scores_of 1 1 1 0 3 0)) =
     Fin (8556839292003943 / 2 ^ 53) \<and>
   95 / 100 < fval (weightedScore (calculateVerdict (scores_of 1 1 1 0 3 0))) \<and>
   fval (weightedScore (calculateVerdict (scores_of 1 1 1 0 3 0))) < 95 / 100 + 1 / 2 ^ 53 \<and>
   type (calculateVerdict (scores_of 1 1 1 0 3 0)) = APPROVE \<and>
   triggeredRules (calculateVerdict (scores_of 1 1 1 0 3 0)) = [''Weighted score < 1.0''] \<and>
   js_ge (missing_context (scores_of 1 1 1 0 3 0)) (Fin 2)"
proof -
  have no: "no_override (scores_of 1 1 1 0 3 0)"
    by (simp add: no_override_def)
  show ?thesis
    by (simp add: ladder_verdict [OF no] weighted_six)
qed

section \<open>Totality and determinism\<close>

lemma calculateVerdict_st_run:
  assumes "scores_heap \<sigma> p = Some s"
  shows "calculateVerdict_st \<sigma> p =
     Inr (\<lparr>vtype = type (calculateVerdict s), vconfidence = confidence (calculateVerdict s),
            vweightedScore = weightedScore (calculateVerdict s),
            vtriggeredRules = next_array \<sigma>\<rparr>,
          \<sigma>\<lparr>array_heap := (array_heap \<sigma>)(next_array \<sigma> \<mapsto> triggeredRules (calculateVerdict s)),
            next_array := Suc (next_array \<sigma>)\<rparr>)"
  using assms
  by (simp add: calculateVerdict_st_def calculateVerdict_def new_array_def push_and_return_def
      array_push_def push_def Let_def)

text \<open>
  C7. A call of \<open>calculateVerdict\<close> on a reference to a scores object returns a verdict
  and does not throw, whatever the store. The verdict it returns is the one that the
  scores alone determine. The call has no side effect: the scores objects and the state
  of the component are as before, every array that existed is as before, and the only
  thing written is the array the call has allocated itself, at an address that was free.
  So a second call on identical input, in the store the first call leaves or in any other
  store, returns the identical verdict.
\<close>

theorem engine_total_and_pure:
  fixes \<sigma> :: "'c store"
  assumes "scores_heap \<sigma> p = Some s"
  shows "\<exists>v \<sigma>'. calculateVerdict_st \<sigma> p = Inr (v, \<sigma>') \<and>
           verdict_value \<sigma>' v = Some (calculateVerdict s) \<and>
           scores_heap \<sigma>' = scores_heap \<sigma> \<and>
           component \<sigma>' = component \<sigma> \<and>
           (\<forall>a. a \<noteq> next_array \<sigma> \<longrightarrow> array_heap \<sigma>' a = array_heap \<sigma> a) \<and>
           vtriggeredRules v = next_array \<sigma> \<and>
           next_array \<sigma>' = Suc (next_array \<sigma>) \<and>
           (\<exists>v2 \<sigma>''. calculateVerdict_st \<sigma>' p = Inr (v2, \<sigma>'') \<and>
              verdict_value \<sigma>'' v2 = verdict_value \<sigma>' v \<and>
              verdict_value \<sigma>'' v = verdict_value \<sigma>' v) \<and>
           (\<forall>(\<tau> :: 'd store) q. scores_heap \<tau> q = Some s \<longrightarrow>
              (\<exists>v3 \<tau>'. calculateVerdict_st \<tau> q = Inr (v3, \<tau>') \<and>
                 verdict_value \<tau>' v3 = verdict_value \<sigma>' v))"
proof -
  define v where "v =
    \<lparr>vtype = type (calculateVerdict s), vconfidence = confidence (calculateVerdict s),
     vweightedScore = weightedScore (calculateVerdict s), vtriggeredRules = next_array \<sigma>\<rparr>"
  define \<sigma>' where "\<sigma>' =
    \<sigma>\<lparr>array_heap := (array_heap \<sigma>)(next_array \<sigma> \<mapsto> triggeredRules (calculateVerdict s)),
      next_array := Suc (next_array \<sigma>)\<rparr>"
  have run: "calculateVerdict_st \<sigma> p = Inr (v, \<sigma>')"
    unfolding v_def \<sigma>'_def using assms by (rule calculateVerdict_st_run)
  have val: "verdict_value \<sigma>' v = Some (calculateVerdict s)"
    by (simp add: verdict_value_def v_def \<sigma>'_def)
  have frame: "scores_heap \<sigma>' = scores_heap \<sigma>" "component \<sigma>' = component \<sigma>"
    "\<forall>a. a \<noteq> next_array \<sigma> \<longrightarrow> array_heap \<sigma>' a = array_heap \<sigma> a"
    "vtriggeredRules v = next_array \<sigma>" "next_array \<sigma>' = Suc (next_array \<sigma>)"
    by (simp_all add: v_def \<sigma>'_def)
  have again: "scores_heap \<sigma>' p = Some s"
    using assms by (simp add: frame(1))
  have second: "\<exists>v2 \<sigma>''. calculateVerdict_st \<sigma>' p = Inr (v2, \<sigma>'') \<and>
      verdict_value \<sigma>'' v2 = verdict_value \<sigma>' v \<and> verdict_value \<sigma>'' v = verdict_value \<sigma>' v"
    unfolding calculateVerdict_st_run [OF again] val
    by (simp add: verdict_value_def v_def \<sigma>'_def)
  have other: "\<exists>v3 \<tau>'. calculateVerdict_st \<tau> q = Inr (v3, \<tau>') \<and>
      verdict_value \<tau>' v3 = verdict_value \<sigma>' v" if "scores_heap \<tau> q = Some s" for \<tau> :: "'d store" and q
    unfolding calculateVerdict_st_run [OF that] val
    by (simp add: verdict_value_def)
  show ?thesis
  proof (rule exI [of _ v], rule exI [of _ \<sigma>'], intro conjI)
    show "\<exists>v2 \<sigma>''. calculateVerdict_st \<sigma>' p = Inr (v2, \<sigma>'') \<and>
      verdict_value \<sigma>'' v2 = verdict_value \<sigma>' v \<and> verdict_value \<sigma>'' v = verdict_value \<sigma>' v"
      by (rule second)
    show "\<forall>(\<tau> :: 'd store) q. scores_heap \<tau> q = Some s \<longrightarrow>
      (\<exists>v3 \<tau>'. calculateVerdict_st \<tau> q = Inr (v3, \<tau>') \<and>
         verdict_value \<tau>' v3 = verdict_value \<sigma>' v)"
      using other by blast
  qed (rule run val frame)+
qed

theorem engine_total_and_pure_witness:
  "scores_heap (store_with (scores_of 3 3 3 3 3 3)) 0 = Some (scores_of 3 3 3 3 3 3) \<and>
   (\<exists>v \<sigma>'. calculateVerdict_st (store_with (scores_of 3 3 3 3 3 3)) 0 = Inr (v, \<sigma>') \<and>
      verdict_value \<sigma>' v = Some safety_block \<and>
      scores_heap \<sigma>' = scores_heap (store_with (scores_of 3 3 3 3 3 3)) \<and>
      (\<exists>v2 \<sigma>''. calculateVerdict_st \<sigma>' 0 = Inr (v2, \<sigma>'') \<and>
         verdict_value \<sigma>'' v2 = Some safety_block \<and> verdict_value \<sigma>'' v = Some safety_block))"
proof -
  have h: "scores_heap (store_with (scores_of 3 3 3 3 3 3)) 0 = Some (scores_of 3 3 3 3 3 3)"
    by (simp add: store_with_def)
  have c: "calculateVerdict (scores_of 3 3 3 3 3 3) = safety_block"
    by (simp add: calculateVerdict_cases)
  from engine_total_and_pure [OF h, unfolded c]
  obtain v \<sigma>' where first:
    "calculateVerdict_st (store_with (scores_of 3 3 3 3 3 3)) 0 = Inr (v, \<sigma>')"
    "verdict_value \<sigma>' v = Some safety_block"
    "scores_heap \<sigma>' = scores_heap (store_with (scores_of 3 3 3 3 3 3))"
    and "\<exists>v2 \<sigma>''. calculateVerdict_st \<sigma>' 0 = Inr (v2, \<sigma>'') \<and>
      verdict_value \<sigma>'' v2 = verdict_value \<sigma>' v \<and> verdict_value \<sigma>'' v = verdict_value \<sigma>' v"
    by blast
  then obtain v2 \<sigma>'' where second:
    "calculateVerdict_st \<sigma>' 0 = Inr (v2, \<sigma>'')"
    "verdict_value \<sigma>'' v2 = Some safety_block" "verdict_value \<sigma>'' v = Some safety_block"
    by auto
  from h first second show ?thesis
    by blast
qed

section \<open>Inputs out of range\<close>

text \<open>
  C8. The engine does not check the range of its input and returns a verdict on every
  input. The value 5 passes the tests \<open>>= 3\<close> and \<open>>= 2\<close>, so a dimension equal
  to 5 passes the test of its override: a safety of 5 gives the safety BLOCK, an
  irreversibility of 5 with an external impact of at least 2 gives the irreversibility
  BLOCK unless the safety override fired, and a policy violation of 5 gives the policy
  BLOCK unless an earlier override fired. And there is an input out of range on which no
  override fires and whose weighted score exceeds 3: the scores 2, 5, 5, 2, 5, 2 give 3.5.
\<close>

theorem out_of_range_input:
  "js_ge (Fin 5) (Fin 3) \<and> js_ge (Fin 5) (Fin 2) \<and>
   (safety s = Fin 5 \<longrightarrow> js_ge (safety s) (Fin 3) \<and> calculateVerdict s = safety_block) \<and>
   (irreversibility s = Fin 5 \<longrightarrow> js_ge (irreversibility s) (Fin 3)) \<and>
   (irreversibility s = Fin 5 \<and> js_ge (external_impact s) (Fin 2) \<and> \<not> js_ge (safety s) (Fin 3)
      \<longrightarrow> calculateVerdict s = irreversibility_block) \<and>
   (policy_violation s = Fin 5 \<longrightarrow> js_ge (policy_violation s) (Fin 3)) \<and>
   (policy_violation s = Fin 5 \<and> \<not> js_ge (safety s) (Fin 3) \<and>
    \<not> (js_ge (irreversibility s) (Fin 3) \<and> js_ge (external_impact s) (Fin 2))
      \<longrightarrow> calculateVerdict s = policy_block) \<and>
   (\<exists>t. \<not> well_formed t \<and> no_override t \<and> js_lt (Fin 3) (weightedScore (calculateVerdict t)))"
proof -
  have no: "no_override (scores_of 2 5 5 2 5 2)"
    by (simp add: no_override_def)
  have "\<not> well_formed (scores_of 2 5 5 2 5 2)"
    by (simp add: well_formed_def is_score_def)
  moreover have "js_lt (Fin 3) (weightedScore (calculateVerdict (scores_of 2 5 5 2 5 2)))"
    by (simp add: ladder_verdict(1) [OF no] weighted_five)
  ultimately have "\<exists>t. \<not> well_formed t \<and> no_override t \<and>
      js_lt (Fin 3) (weightedScore (calculateVerdict t))"
    using no by blast
  then show ?thesis
    by (auto simp add: calculateVerdict_cases)
qed

theorem out_of_range_input_witness:
  "calculateVerdict (scores_of 5 5 5 5 5 5) = safety_block \<and>
   calculateVerdict (scores_of 5 5 5 2 5 5) = irreversibility_block \<and>
   calculateVerdict (scores_of 2 5 5 2 5 5) = policy_block"
  using out_of_range_input [of "scores_of 5 5 5 5 5 5"]
    out_of_range_input [of "scores_of 5 5 5 2 5 5"]
    out_of_range_input [of "scores_of 2 5 5 2 5 5"]
  by simp

section \<open>Bounds on well-formed inputs\<close>

text \<open>
  C9. The claim is that on a well-formed input without override the weighted score is at
  most 2.5 and the confidence at least 50/3. The scores 2, 3, 3, 2, 3, 2 are well formed
  and fire no override; their weighted score is \<open>2.5 + 2 powi (- 51)\<close> and their
  confidence is below 50/3.
\<close>

theorem weighted_score_above_2_5:
  "well_formed (scores_of 2 3 3 2 3 2) \<and> no_override (scores_of 2 3 3 2 3 2) \<and>
   js_lt (Fin (5 / 2)) (weightedScore (calculateVerdict (scores_of 2 3 3 2 3 2))) \<and>
   fval (weightedScore (calculateVerdict (scores_of 2 3 3 2 3 2))) = 5 / 2 + 2 powi (- 51) \<and>
   fval (confidence (calculateVerdict (scores_of 2 3 3 2 3 2))) < 50 / 3"
proof -
  have wf: "well_formed (scores_of 2 3 3 2 3 2)"
    by (rule scores_of_well_formed) simp_all
  have no: "no_override (scores_of 2 3 3 2 3 2)"
    by (simp add: no_override_def)
  have "confidence (calculateVerdict (scores_of 2 3 3 2 3 2)) = Fin c_min"
    by (simp add: ladder_confidence(2) [OF wf no] weighted_max raw_confidence_max)
  then show ?thesis
    using wf no by (simp add: ladder_verdict(1) [OF no] weighted_max w_max_def c_min_def)
qed

text \<open>
  C9, as amended. On a well-formed input on which no hard override fires the weighted
  score is at least 0 and at most \<open>w_max\<close>, that is 2.5000000000000004, so strictly
  below 3; the confidence is at least \<open>c_min\<close>, that is 16.666666666666657, and it is
  the unclamped value: neither the lower clamp at 0 nor the upper clamp at 100 changes
  it.
\<close>

theorem weighted_score_bound:
  assumes "well_formed s" and "no_override s"
  shows "js_ge (weightedScore (calculateVerdict s)) (Fin 0) \<and>
         js_ge (Fin w_max) (weightedScore (calculateVerdict s)) \<and>
         js_lt (weightedScore (calculateVerdict s)) (Fin 3) \<and>
         js_ge (confidence (calculateVerdict s)) (Fin c_min) \<and>
         js_lt (Fin 0) (confidence (calculateVerdict s)) \<and>
         confidence (calculateVerdict s) = raw_confidence (weightedScore (calculateVerdict s))"
proof -
  note w = weighted_range [OF assms]
  note r = ladder_confidence [OF assms]
  have "js_lt (weighted_formula s) (Fin 3)"
    using w by (rule in_range_lt) (simp add: w_max_def)
  moreover have "js_lt (Fin 0) (raw_confidence (weighted_formula s))"
    using r(1) c_min_pos by (rule in_range_gt)
  ultimately show ?thesis
    using in_range_compare(1,2) [OF w] in_range_compare(1) [OF r(1)]
    by (simp add: ladder_verdict(1) [OF assms(2)] r(2))
qed

theorem weighted_score_bound_witness:
  "well_formed (scores_of 2 3 3 2 3 2) \<and> no_override (scores_of 2 3 3 2 3 2) \<and>
   weightedScore (calculateVerdict (scores_of 2 3 3 2 3 2)) = Fin w_max \<and>
   confidence (calculateVerdict (scores_of 2 3 3 2 3 2)) = Fin c_min \<and>
   js_lt (Fin w_max) (Fin 3) \<and> js_lt (Fin 0) (Fin c_min)"
proof -
  have wf: "well_formed (scores_of 2 3 3 2 3 2)"
    by (rule scores_of_well_formed) simp_all
  have no: "no_override (scores_of 2 3 3 2 3 2)"
    by (simp add: no_override_def)
  have w: "weightedScore (calculateVerdict (scores_of 2 3 3 2 3 2)) = Fin w_max"
    by (simp add: ladder_verdict(1) [OF no] weighted_max)
  from weighted_score_bound [OF wf no] show ?thesis
    using wf no w by (simp add: raw_confidence_max c_min_pos)
qed

section \<open>The two copies of the engine\<close>

text \<open>
  C10. The \<open>calculateVerdict\<close> of the first document and the \<open>calculateVerdict\<close> of
  the second document of the source file return the same verdict on every input.
\<close>

theorem duplicate_engines_equal: "calculateVerdict_doc2 s = calculateVerdict s"
  by (simp add: calculateVerdict_doc2_def calculateVerdict_def)

end
